theory Spec2Isabelle
  imports Main "HOL-Library.Word"
begin

section \<open>oscrypto, OS X backend: public\_key.py\<close>

text \<open>
  A shallow embedding of \<^verbatim>\<open>src/oscrypto/_osx/public_key.py\<close>. Python objects that the
  module mutates (key and certificate handles) are records that each function returns
  updated; every exception is a value of \<open>exn\<close> on the left of a sum; every call into the
  Security and CoreFoundation frameworks (directly or through \<^verbatim>\<open>CFHelpers\<close>) is appended,
  with the reply it got, to a trace. A source name with a leading underscore, which is not
  an Isabelle identifier, is written with the prefix \<open>p_\<close>: \<^verbatim>\<open>_sign\<close> is \<open>p_sign\<close>.
\<close>

subsection \<open>Values\<close>

type_synonym bytes = "8 word list"

text \<open>
  A Python variable holding a native reference: \<open>None\<close> is Python's \<^verbatim>\<open>None\<close>, \<open>Some p\<close> a
  pointer, \<open>Some 0\<close> the NULL pointer. Both \<^verbatim>\<open>None\<close> and NULL are false in an \<^verbatim>\<open>if\<close>.
\<close>

type_synonym pyref = "nat option"

fun truthy :: "pyref \<Rightarrow> bool" where
  "truthy None = False"
| "truthy (Some p) = (p \<noteq> 0)"

datatype exn =
    ValueError string
  | PrivateKeyError string
  | SignatureError string
  | OSError nat
  | UnboundLocalError string
  | AttributeError string
  | KeyError string
  | IOError string

text \<open>
  The \<^verbatim>\<open>curve\<close> property of an asn1crypto key is a pair of a type tag and details; the
  tag decides what the details are, so the pair is one datatype.
\<close>

datatype curve = Named string | Specified | Implicit_ca

fun curve_type :: "curve \<Rightarrow> string" where
  "curve_type (Named n) = ''named''"
| "curve_type Specified = ''specified''"
| "curve_type Implicit_ca = ''implicit_ca''"

text \<open>
  The structured metadata of a parsed key (\<^verbatim>\<open>asn1crypto.keys.PublicKeyInfo\<close> or
  \<^verbatim>\<open>PrivateKeyInfo\<close>): the properties the module reads. \<open>dump\<close> is the canonical encoding,
  \<open>unwrap_dump\<close> that of \<^verbatim>\<open>unwrap()\<close>, read for private keys only.
\<close>

record keystruct =
  algorithm :: string
  bit_size :: int
  byte_size :: int
  hash_algo :: string
  curve :: curve
  dump :: bytes
  unwrap_dump :: bytes

record x509 =
  cert_dump :: bytes
  subject_public_key_info :: keystruct

text \<open>\<^verbatim>\<open>class PrivateKey\<close> and its subclass \<^verbatim>\<open>PublicKey\<close>: the same two fields.\<close>

record keyhandle =
  sec_key_ref :: pyref
  asn1 :: keystruct

text \<open>\<^verbatim>\<open>class Certificate\<close>; \<open>p_public_key\<close> is the field \<^verbatim>\<open>_public_key\<close>.\<close>

record certificate =
  sec_certificate_ref :: pyref
  cert_asn1 :: x509
  p_public_key :: "keyhandle option"

text \<open>The values a dynamically typed argument can hold.\<close>

datatype pyval =
    Bytes bytes
  | Str string
  | PublicKeyInfo keystruct
  | PrivateKeyInfo keystruct
  | X509Certificate x509
  | PrivateKeyObj keyhandle
  | PublicKeyObj keyhandle
  | CertificateObj certificate
  | NoneVal
  | Other string

text \<open>\<^verbatim>\<open>x.__class__.__name__\<close>\<close>

fun class_name :: "pyval \<Rightarrow> string" where
  "class_name (Bytes b) = ''bytes''"
| "class_name (Str s) = ''str''"
| "class_name (PublicKeyInfo k) = ''PublicKeyInfo''"
| "class_name (PrivateKeyInfo k) = ''PrivateKeyInfo''"
| "class_name (X509Certificate c) = ''Certificate''"
| "class_name (PrivateKeyObj h) = ''PrivateKey''"
| "class_name (PublicKeyObj h) = ''PublicKey''"
| "class_name (CertificateObj c) = ''Certificate''"
| "class_name NoneVal = ''NoneType''"
| "class_name (Other n) = n"

text \<open>
  \<^verbatim>\<open>'%s' % n\<close> for an integer \<open>n\<close>: its decimal digits, after a minus sign if it is
  negative.
\<close>

fun str_nat :: "nat \<Rightarrow> string" where
  "str_nat n =
     (if n < 10 then [char_of (48 + n)] else str_nat (n div 10) @ [char_of (48 + n mod 10)])"

declare str_nat.simps [simp del]

definition str_int :: "int \<Rightarrow> string" where
  "str_int i = (if i < 0 then CHR ''-'' # str_nat (nat (- i)) else str_nat (nat i))"

text \<open>
  \<^verbatim>\<open>repr(s)\<close> of a Python 3 string whose characters are below U+0100: the string between
  single quotes, or double quotes if it holds a single quote and no double quote; the
  backslash and the quote used are escaped by a backslash, tab, line feed and carriage
  return are written \<^verbatim>\<open>\t\<close>, \<^verbatim>\<open>\n\<close>, \<^verbatim>\<open>\r\<close>, and every other character that is not printable
  is written \<^verbatim>\<open>\xNN\<close>.
\<close>

definition hex_digit :: "nat \<Rightarrow> char" where
  "hex_digit n = (if n < 10 then char_of (48 + n) else char_of (87 + n))"

definition repr_char :: "char \<Rightarrow> char \<Rightarrow> string" where
  "repr_char q c =
     (let n = (of_char c :: nat)
      in if c = CHR 0x5C \<or> c = q then [CHR 0x5C, c]
         else if c = CHR 0x09 then [CHR 0x5C, CHR ''t'']
         else if c = CHR 0x0A then [CHR 0x5C, CHR ''n'']
         else if c = CHR 0x0D then [CHR 0x5C, CHR ''r'']
         else if n < 32 \<or> n = 127 \<or> (128 \<le> n \<and> n \<le> 160) \<or> n = 173 then
           [CHR 0x5C, CHR ''x'', hex_digit (n div 16), hex_digit (n mod 16)]
         else [c])"

definition repr_str :: "string \<Rightarrow> string" where
  "repr_str s =
     (let q = (if CHR 0x27 \<in> set s \<and> CHR 0x22 \<notin> set s then CHR 0x22 else CHR 0x27)
      in q # concat (map (repr_char q) s) @ [q])"

subsection \<open>The native service\<close>

datatype key_type = kSecAttrKeyTypeDSA | kSecAttrKeyTypeECDSA | kSecAttrKeyTypeRSA

datatype key_class = kSecAttrKeyClassPublic | kSecAttrKeyClassPrivate

datatype digest = kSecDigestMD5 | kSecDigestSHA1 | kSecDigestSHA2

datatype padding_key = kSecPaddingOAEPKey | kSecPaddingPKCS1Key | kSecPaddingNoneKey

datatype attr_name =
    kSecDigestTypeAttribute
  | kSecDigestLengthAttribute
  | kSecPaddingKey
  | kSecTransformInputAttributeName

datatype attr_value = DigestValue digest | PaddingValue padding_key | RefValue pyref

datatype key_attr =
    kSecAttrKeyType key_type
  | kSecAttrKeyClass key_class
  | kSecAttrCanSign bool
  | kSecAttrCanVerify bool

text \<open>One constructor for each framework function the module calls, with its arguments.\<close>

datatype call =
    CFRelease pyref
  | CFBooleanGetValue pyref
  | Cf_data_from_bytes bytes
  | Cf_data_to_bytes pyref
  | Cf_number_from_integer int
  | Cf_dictionary_from_pairs "key_attr list"
  | SecCertificateCopyPublicKey pyref
  | SecCertificateCreateWithData pyref
  | SecKeyCreateFromData pyref pyref
  | SecEncryptTransformCreate pyref
  | SecDecryptTransformCreate pyref
  | SecSignTransformCreate pyref
  | SecVerifyTransformCreate pyref pyref
  | SecTransformSetAttribute pyref attr_name attr_value
  | SecTransformExecute pyref

text \<open>
  What a framework call gives back: the returned reference (\<open>ret\<close>), the content of the
  \<^verbatim>\<open>CFErrorRef *\<close> it was given after the call (\<open>err\<close>, 0 for NULL), an \<^verbatim>\<open>OSStatus\<close>
  (\<open>status\<close>, 0 for success), and for the two conversions a byte string and a boolean.
\<close>

record reply =
  ret :: pyref
  err :: nat
  status :: nat
  out_bytes :: bytes
  out_bool :: bool

type_synonym trace = "(call \<times> reply) list"

text \<open>
  The collaborators outside the module. The framework is a function from the number of
  calls made so far and the call to its reply, so that two equal calls may be answered
  differently. The parsers return the pair the module unpacks.
\<close>

record env =
  native :: "nat \<Rightarrow> call \<Rightarrow> reply"
  read_file :: "string \<Rightarrow> exn + bytes"
  encode_utf8 :: "string \<Rightarrow> bytes"
  parse_certificate :: "bytes \<Rightarrow> exn + (x509 \<times> string)"
  parse_private :: "bytes \<Rightarrow> bytes option \<Rightarrow> exn + (keystruct \<times> string)"
  parse_public :: "bytes \<Rightarrow> exn + (keystruct \<times> string)"
  parse_pkcs12 :: "bytes \<Rightarrow> bytes option \<Rightarrow>
     exn + ((keystruct \<times> string) option \<times> (x509 \<times> string) option \<times> (x509 \<times> string) list)"
  add_pss_padding :: "string \<Rightarrow> int \<Rightarrow> int \<Rightarrow> bytes \<Rightarrow> exn + bytes"
  verify_pss_padding :: "string \<Rightarrow> int \<Rightarrow> int \<Rightarrow> bytes \<Rightarrow> bytes \<Rightarrow> exn + bool"

definition native_call :: "env \<Rightarrow> call \<Rightarrow> trace \<Rightarrow> reply \<times> trace" where
  "native_call E c t = (let r = native E (length t) c in (r, t @ [(c, r)]))"

text \<open>The references released in a trace, in order.\<close>

fun released :: "trace \<Rightarrow> pyref list" where
  "released [] = []"
| "released ((CFRelease p, r) # t) = p # released t"
| "released (e # t) = released t"

subsection \<open>Handles\<close>

text \<open>\<^verbatim>\<open>PrivateKey.__del__\<close>, inherited by \<^verbatim>\<open>PublicKey\<close>.\<close>

definition PrivateKey_del :: "env \<Rightarrow> keyhandle \<Rightarrow> trace \<Rightarrow> keyhandle \<times> trace" where
  "PrivateKey_del E self t =
     (if truthy (sec_key_ref self) then
        (let (r, t1) = native_call E (CFRelease (sec_key_ref self)) t
         in (self\<lparr>sec_key_ref := None\<rparr>, t1))
      else (self, t))"

text \<open>\<^verbatim>\<open>Certificate.__del__\<close>\<close>

definition Certificate_del :: "env \<Rightarrow> certificate \<Rightarrow> trace \<Rightarrow> certificate \<times> trace" where
  "Certificate_del E self t =
     (let (self1, t1) =
            (case p_public_key self of
               Some pk \<Rightarrow>
                 (let (pk1, t') = PrivateKey_del E pk t
                  in (self\<lparr>p_public_key := None\<rparr>, t'))
             | None \<Rightarrow> (self, t))
      in if truthy (sec_certificate_ref self1) then
           (let (r, t2) = native_call E (CFRelease (sec_certificate_ref self1)) t1
            in (self1\<lparr>sec_certificate_ref := None\<rparr>, t2))
         else (self1, t1))"

subsection \<open>Error translation\<close>

text \<open>
  Modelled from the spec: \<^verbatim>\<open>handle_cf_error\<close> of \<^verbatim>\<open>_core_foundation\<close> is not part of this
  file. The spec's native-call failure: a non-null error reference becomes a generic
  platform-operation failure carrying it (the \<^verbatim>\<open>OSError\<close> of the docstrings); a null one
  lets the caller go on. \<open>None\<close> is a normal return.
\<close>

definition handle_cf_error :: "nat \<Rightarrow> exn option" where
  "handle_cf_error e = (if e = 0 then None else Some (OSError e))"

text \<open>
  Modelled from the spec: \<^verbatim>\<open>handle_sec_error\<close> of \<^verbatim>\<open>_security\<close>, the same for a
  non-success \<^verbatim>\<open>OSStatus\<close>.
\<close>

definition handle_sec_error :: "nat \<Rightarrow> exn option" where
  "handle_sec_error s = (if s = 0 then None else Some (OSError s))"

text \<open>\<^verbatim>\<open>if x: CoreFoundation.CFRelease(x)\<close>, the statement of every \<^verbatim>\<open>finally\<close> block.\<close>

definition release_if :: "env \<Rightarrow> pyref \<Rightarrow> trace \<Rightarrow> trace" where
  "release_if E x t = (if truthy x then snd (native_call E (CFRelease x) t) else t)"

subsection \<open>Loader\<close>

text \<open>\<^verbatim>\<open>_load_x509\<close>: no statement of it raises.\<close>

definition p_load_x509 :: "env \<Rightarrow> x509 \<Rightarrow> trace \<Rightarrow> certificate \<times> trace" where
  "p_load_x509 E cert t =
     (let source = cert_dump cert;
          (r1, t1) = native_call E (Cf_data_from_bytes source) t;
          cf_source = ret r1;
          (r2, t2) = native_call E (SecCertificateCreateWithData cf_source) t1;
          sec_key_ref = ret r2
      in (\<lparr>sec_certificate_ref = sec_key_ref, cert_asn1 = cert, p_public_key = None\<rparr>,
          release_if E cf_source t2))"

text \<open>
  \<^verbatim>\<open>load_certificate\<close>. A parser's second component is dropped, as the source's
  \<^verbatim>\<open>certificate, _ = parse_certificate(source)\<close> does.
\<close>

definition load_certificate :: "env \<Rightarrow> pyval \<Rightarrow> trace \<Rightarrow> (exn + certificate) \<times> trace" where
  "load_certificate E source t =
     (case (case source of
              X509Certificate c \<Rightarrow> Inr c
            | Bytes b \<Rightarrow>
                (case parse_certificate E b of Inl e \<Rightarrow> Inl e | Inr (c, x) \<Rightarrow> Inr c)
            | Str s \<Rightarrow>
                (case read_file E s of
                   Inl e \<Rightarrow> Inl e
                 | Inr b \<Rightarrow>
                     (case parse_certificate E b of Inl e \<Rightarrow> Inl e | Inr (c, x) \<Rightarrow> Inr c))
            | _ \<Rightarrow> Inl (ValueError
                (''source must be a byte string, unicode string or '' @
                 ''asn1crypto.x509.Certificate object, not '' @ class_name source))) of
        Inl e \<Rightarrow> (Inl e, t)
      | Inr certificate \<Rightarrow> (case p_load_x509 E certificate t of (c, t1) \<Rightarrow> (Inr c, t1)))"

text \<open>
  The fields of a key structure and whether it is a \<^verbatim>\<open>PublicKeyInfo\<close>; any other value
  has no attribute \<^verbatim>\<open>algorithm\<close>.
\<close>

fun key_fields :: "pyval \<Rightarrow> (bool \<times> keystruct) option" where
  "key_fields (PublicKeyInfo k) = Some (True, k)"
| "key_fields (PrivateKeyInfo k) = Some (False, k)"
| "key_fields v = None"

fun curve_details :: "curve \<Rightarrow> string option" where
  "curve_details (Named n) = Some n"
| "curve_details c = None"

text \<open>The dictionary of \<^verbatim>\<open>_load_key\<close> from the algorithm to the key-type constant.\<close>

definition key_type_of :: "string \<Rightarrow> key_type option" where
  "key_type_of a =
     (if a = ''dsa'' then Some kSecAttrKeyTypeDSA
      else if a = ''ec'' then Some kSecAttrKeyTypeECDSA
      else if a = ''rsa'' then Some kSecAttrKeyTypeRSA
      else None)"

text \<open>The checks at the head of \<^verbatim>\<open>_load_key\<close> (lines 324 to 332): the failure raised, if any.\<close>

definition load_key_policy :: "keystruct \<Rightarrow> exn option" where
  "load_key_policy k =
     (if algorithm k = ''ec'' then
        (if curve_type (curve k) \<noteq> ''named'' then
           Some (PrivateKeyError ''OS X only supports EC keys using named curves'')
         else if curve_details (curve k)
                   \<notin> {Some ''secp256r1'', Some ''secp384r1'', Some ''secp521r1''} then
           Some (PrivateKeyError (''OS X only supports EC keys using the named curves '' @
                                  ''secp256r1, secp384r1 and secp521r1''))
         else None)
      else if algorithm k = ''dsa'' \<and> hash_algo k = ''sha2'' then
        Some (PrivateKeyError (''OS X only supports DSA keys based on SHA1 (2048 bits or '' @
                               ''less) - this key is based on SHA2 and is '' @
                               str_int (bit_size k) @ '' bits''))
      else None)"

text \<open>
  \<^verbatim>\<open>_load_key\<close>. The result is a \<^verbatim>\<open>PublicKey\<close> or a \<^verbatim>\<open>PrivateKey\<close> object. The \<^verbatim>\<open>finally\<close>
  block releases \<^verbatim>\<open>cf_source\<close>, then \<^verbatim>\<open>cf_dict\<close>; \<^verbatim>\<open>cf_output\<close> is never assigned.
\<close>

definition p_load_key :: "env \<Rightarrow> pyval \<Rightarrow> trace \<Rightarrow> (exn + pyval) \<times> trace" where
  "p_load_key E key_object t =
     (case key_fields key_object of
        None \<Rightarrow> (Inl (AttributeError ''algorithm''), t)
      | Some (is_public, k) \<Rightarrow>
     (case load_key_policy k of
        Some e \<Rightarrow> (Inl e, t)
      | None \<Rightarrow>
     (let (source, key_class) =
            (if is_public then (dump k, kSecAttrKeyClassPublic)
             else (unwrap_dump k, kSecAttrKeyClassPrivate));
          (r1, t1) = native_call E (Cf_data_from_bytes source) t;
          cf_source = ret r1
      in case key_type_of (algorithm k) of
           None \<Rightarrow> (Inl (KeyError (algorithm k)), release_if E cf_source t1)
         | Some key_type \<Rightarrow>
     (let (r2, t2) = native_call E (Cf_dictionary_from_pairs
                       [kSecAttrKeyType key_type, kSecAttrKeyClass key_class,
                        kSecAttrCanSign True, kSecAttrCanVerify True]) t1;
          cf_dict = ret r2;
          (r3, t3) = native_call E (SecKeyCreateFromData cf_dict cf_source) t2;
          sec_key_ref = ret r3;
          t4 = release_if E cf_dict (release_if E cf_source t3)
      in case handle_cf_error (err r3) of
           Some e \<Rightarrow> (Inl e, t4)
         | None \<Rightarrow>
             (if key_class = kSecAttrKeyClassPublic then
                (Inr (PublicKeyObj \<lparr>sec_key_ref = sec_key_ref, asn1 = k\<rparr>), t4)
              else
                (Inr (PrivateKeyObj \<lparr>sec_key_ref = sec_key_ref, asn1 = k\<rparr>), t4))))))"

text \<open>
  The password handling that opens \<^verbatim>\<open>load_private_key\<close> and \<^verbatim>\<open>load_pkcs12\<close>: text is
  encoded, anything but a byte string is then refused.
\<close>

definition check_password :: "env \<Rightarrow> pyval \<Rightarrow> exn + bytes option" where
  "check_password E password =
     (case password of
        NoneVal \<Rightarrow> Inr None
      | Str s \<Rightarrow> Inr (Some (encode_utf8 E s))
      | Bytes b \<Rightarrow> Inr (Some b)
      | _ \<Rightarrow> Inl (ValueError (''password must be a byte string, not '' @ class_name password)))"

definition load_private_key ::
  "env \<Rightarrow> pyval \<Rightarrow> pyval \<Rightarrow> trace \<Rightarrow> (exn + pyval) \<times> trace" where
  "load_private_key E source password t =
     (case source of
        PrivateKeyInfo k \<Rightarrow> p_load_key E source t
      | _ \<Rightarrow>
     (case check_password E password of
        Inl e \<Rightarrow> (Inl e, t)
      | Inr pw \<Rightarrow>
     (case (case source of
              Str s \<Rightarrow> read_file E s
            | Bytes b \<Rightarrow> Inr b
            | _ \<Rightarrow> Inl (ValueError
                (''source must be a byte string, unicode string or '' @
                 ''asn1crypto.keys.PrivateKeyInfo object, not '' @ class_name source))) of
        Inl e \<Rightarrow> (Inl e, t)
      | Inr b \<Rightarrow>
     (case parse_private E b pw of
        Inl e \<Rightarrow> (Inl e, t)
      | Inr (private_object, x) \<Rightarrow> p_load_key E (PrivateKeyInfo private_object) t))))"

text \<open>
  \<^verbatim>\<open>load_public_key\<close>. On the last branch the message is built from the local variable
  \<^verbatim>\<open>public_key\<close>, which no statement on that path has assigned: reading it raises
  \<^verbatim>\<open>UnboundLocalError\<close> before the \<^verbatim>\<open>ValueError\<close> is constructed. The local is an option
  here, \<open>None\<close> while unassigned.
\<close>

definition load_public_key :: "env \<Rightarrow> pyval \<Rightarrow> trace \<Rightarrow> (exn + pyval) \<times> trace" where
  "load_public_key E source t =
     (case (case source of
              PublicKeyInfo k \<Rightarrow> Inr (PublicKeyInfo k)
            | Bytes b \<Rightarrow>
                (case parse_public E b of
                   Inl e \<Rightarrow> Inl e
                 | Inr (k, x) \<Rightarrow> Inr (PublicKeyInfo k))
            | Str s \<Rightarrow>
                (case read_file E s of
                   Inl e \<Rightarrow> Inl e
                 | Inr b \<Rightarrow>
                     (case parse_public E b of
                        Inl e \<Rightarrow> Inl e
                      | Inr (k, x) \<Rightarrow> Inr (PublicKeyInfo k)))
            | _ \<Rightarrow>
                (case (None :: pyval option) of
                   None \<Rightarrow> Inl (UnboundLocalError ''public_key'')
                 | Some public_key \<Rightarrow> Inl (ValueError
                     (''source must be a byte string, unicode string or '' @
                      ''asn1crypto.keys.PublicKeyInfo object, not '' @
                      class_name public_key)))) of
        Inl e \<Rightarrow> (Inl e, t)
      | Inr public_key \<Rightarrow> p_load_key E public_key t)"

text \<open>The comprehension \<^verbatim>\<open>[_load_x509(info[0]) for info in extra_certs_info]\<close>.\<close>

fun load_extra_certs ::
  "env \<Rightarrow> (x509 \<times> string) list \<Rightarrow> trace \<Rightarrow> certificate list \<times> trace" where
  "load_extra_certs E [] t = ([], t)"
| "load_extra_certs E (info # infos) t =
     (let (c, t1) = p_load_x509 E (fst info) t;
          (cs, t2) = load_extra_certs E infos t1
      in (c # cs, t2))"

text \<open>
  \<^verbatim>\<open>load_pkcs12\<close>. The decoder gives, for the key and for the leaf certificate, either
  nothing (false in the source's \<^verbatim>\<open>if\<close>) or a tuple whose first component is the parsed
  object. The result is the triple the source returns, \<open>None\<close> for an empty slot.
\<close>

definition load_pkcs12 ::
  "env \<Rightarrow> pyval \<Rightarrow> pyval \<Rightarrow> trace \<Rightarrow>
     (exn + (pyval option \<times> certificate option \<times> certificate list)) \<times> trace" where
  "load_pkcs12 E source password t =
     (case check_password E password of
        Inl e \<Rightarrow> (Inl e, t)
      | Inr pw \<Rightarrow>
     (case (case source of
              Str s \<Rightarrow> read_file E s
            | Bytes b \<Rightarrow> Inr b
            | _ \<Rightarrow> Inl (ValueError
                (''source must be a byte string or a unicode string, not '' @
                 class_name source))) of
        Inl e \<Rightarrow> (Inl e, t)
      | Inr b \<Rightarrow>
     (case parse_pkcs12 E b pw of
        Inl e \<Rightarrow> (Inl e, t)
      | Inr (key_info, cert_info, extra_certs_info) \<Rightarrow>
     (case (case key_info of
              None \<Rightarrow> (Inr None, t)
            | Some info \<Rightarrow>
                (case p_load_key E (PrivateKeyInfo (fst info)) t of
                   (Inl e, t1) \<Rightarrow> (Inl e, t1)
                 | (Inr key, t1) \<Rightarrow> (Inr (Some key), t1))) of
        (Inl e, t1) \<Rightarrow> (Inl e, t1)
      | (Inr key, t1) \<Rightarrow>
     (let (cert, t2) =
            (case cert_info of
               None \<Rightarrow> (None, t1)
             | Some info \<Rightarrow> (case p_load_x509 E (fst info) t1 of (c, t') \<Rightarrow> (Some c, t')));
          (extra_certs, t3) = load_extra_certs E extra_certs_info t2
      in (Inr (key, cert, extra_certs), t3))))))"

subsection \<open>Properties of a handle\<close>

text \<open>The property \<^verbatim>\<open>Certificate.public_key\<close>: computed on first access, then cached.\<close>

definition Certificate_public_key ::
  "env \<Rightarrow> certificate \<Rightarrow> trace \<Rightarrow> (exn + keyhandle option) \<times> certificate \<times> trace" where
  "Certificate_public_key E self t =
     (if p_public_key self = None \<and> truthy (sec_certificate_ref self) then
        (let (r, t1) = native_call E (SecCertificateCopyPublicKey (sec_certificate_ref self)) t
         in case handle_sec_error (status r) of
              Some e \<Rightarrow> (Inl e, self, t1)
            | None \<Rightarrow>
                (let pk = \<lparr>sec_key_ref = ret r,
                           asn1 = subject_public_key_info (cert_asn1 self)\<rparr>
                 in (Inr (Some pk), self\<lparr>p_public_key := Some pk\<rparr>, t1)))
      else (Inr (p_public_key self), self, t))"

text \<open>
  The handle that the properties \<^verbatim>\<open>algo\<close>, \<^verbatim>\<open>bit_size\<close>, \<^verbatim>\<open>byte_size\<close> and \<^verbatim>\<open>sec_key_ref\<close>
  of an object read: a key object itself, a certificate's \<^verbatim>\<open>public_key\<close>. The object is
  returned too, since a certificate may have cached its key. Other objects have no such
  attribute, and \<^verbatim>\<open>public_key\<close> may be \<^verbatim>\<open>None\<close>.
\<close>

definition key_of :: "env \<Rightarrow> pyval \<Rightarrow> trace \<Rightarrow> (exn + keyhandle) \<times> pyval \<times> trace" where
  "key_of E x t =
     (case x of
        PrivateKeyObj h \<Rightarrow> (Inr h, x, t)
      | PublicKeyObj h \<Rightarrow> (Inr h, x, t)
      | CertificateObj c \<Rightarrow>
          (case Certificate_public_key E c t of
             (Inl e, c1, t1) \<Rightarrow> (Inl e, CertificateObj c1, t1)
           | (Inr None, c1, t1) \<Rightarrow> (Inl (AttributeError ''NoneType''), CertificateObj c1, t1)
           | (Inr (Some pk), c1, t1) \<Rightarrow> (Inr pk, CertificateObj c1, t1))
      | _ \<Rightarrow> (Inl (AttributeError (class_name x)), x, t))"

text \<open>\<^verbatim>\<open>isinstance(x, (Certificate, PublicKey))\<close>\<close>

fun is_Certificate_or_PublicKey :: "pyval \<Rightarrow> bool" where
  "is_Certificate_or_PublicKey (CertificateObj c) = True"
| "is_Certificate_or_PublicKey (PublicKeyObj h) = True"
| "is_Certificate_or_PublicKey v = False"

text \<open>\<^verbatim>\<open>isinstance(x, PrivateKey)\<close>: \<^verbatim>\<open>PublicKey\<close> is a subclass of \<^verbatim>\<open>PrivateKey\<close>.\<close>

fun is_PrivateKey :: "pyval \<Rightarrow> bool" where
  "is_PrivateKey (PrivateKeyObj h) = True"
| "is_PrivateKey (PublicKeyObj h) = True"
| "is_PrivateKey v = False"

subsection \<open>Operation pipeline: encrypt and decrypt\<close>

text \<open>
  The \<^verbatim>\<open>try\<close> block of \<^verbatim>\<open>_encrypt\<close>. Beside the outcome it returns the locals \<^verbatim>\<open>cf_data\<close> and
  \<^verbatim>\<open>sec_transform\<close> as they are when the block is left, for the \<^verbatim>\<open>finally\<close> block.
\<close>

definition encrypt_try ::
  "env \<Rightarrow> pyval \<Rightarrow> bytes \<Rightarrow> padding_key option \<Rightarrow> trace \<Rightarrow>
     (exn + bytes) \<times> (pyref \<times> pyref) \<times> pyval \<times> trace" where
  "encrypt_try E key data padding t =
     (let (r1, t1) = native_call E (Cf_data_from_bytes data) t;
          cf_data = ret r1
      in case key_of E key t1 of
           (Inl e, key1, t2) \<Rightarrow> (Inl e, (cf_data, None), key1, t2)
         | (Inr h, key1, t2) \<Rightarrow>
     (let (r2, t3) = native_call E (SecEncryptTransformCreate (sec_key_ref h)) t2;
          sec_transform = ret r2
      in case handle_cf_error (err r2) of
           Some e \<Rightarrow> (Inl e, (cf_data, sec_transform), key1, t3)
         | None \<Rightarrow>
     (case (case padding of
              Some pad \<Rightarrow>
                (let (r3, t4) = native_call E
                       (SecTransformSetAttribute sec_transform kSecPaddingKey (PaddingValue pad)) t3
                 in (handle_cf_error (err r3), t4))
            | None \<Rightarrow> (None, t3)) of
        (Some e, t4) \<Rightarrow> (Inl e, (cf_data, sec_transform), key1, t4)
      | (None, t4) \<Rightarrow>
     (let (r4, t5) = native_call E
            (SecTransformSetAttribute sec_transform kSecTransformInputAttributeName
               (RefValue cf_data)) t4
      in case handle_cf_error (err r4) of
           Some e \<Rightarrow> (Inl e, (cf_data, sec_transform), key1, t5)
         | None \<Rightarrow>
     (let (r5, t6) = native_call E (SecTransformExecute sec_transform) t5;
          ciphertext = ret r5
      in case handle_cf_error (err r5) of
           Some e \<Rightarrow> (Inl e, (cf_data, sec_transform), key1, t6)
         | None \<Rightarrow>
     (let (r6, t7) = native_call E (Cf_data_to_bytes ciphertext) t6
      in (Inr (out_bytes r6), (cf_data, sec_transform), key1, t7)))))))"

text \<open>\<^verbatim>\<open>_encrypt\<close>: the argument checks, the \<^verbatim>\<open>try\<close> block, the \<^verbatim>\<open>finally\<close> block.\<close>

definition p_encrypt ::
  "env \<Rightarrow> pyval \<Rightarrow> pyval \<Rightarrow> padding_key option \<Rightarrow> trace \<Rightarrow>
     (exn + bytes) \<times> pyval \<times> trace" where
  "p_encrypt E certificate_or_public_key data padding t =
     (if \<not> is_Certificate_or_PublicKey certificate_or_public_key then
        (Inl (ValueError (''certificate_or_public_key must be an instance of the '' @
            ''Certificate or PublicKey class, not '' @ class_name certificate_or_public_key)),
         certificate_or_public_key, t)
      else case data of
        Bytes d \<Rightarrow>
          (if padding = None then
             (Inl (ValueError ''padding must be specified''), certificate_or_public_key, t)
           else
             (let (res, (cf_data, sec_transform), key1, t1) =
                    encrypt_try E certificate_or_public_key d padding t
              in (res, key1, release_if E sec_transform (release_if E cf_data t1))))
      | _ \<Rightarrow>
          (Inl (ValueError (''data must be a byte string, not '' @ class_name data)),
           certificate_or_public_key, t))"

text \<open>The \<^verbatim>\<open>try\<close> block of \<^verbatim>\<open>_decrypt\<close>.\<close>

definition decrypt_try ::
  "env \<Rightarrow> pyval \<Rightarrow> bytes \<Rightarrow> padding_key \<Rightarrow> trace \<Rightarrow>
     (exn + bytes) \<times> (pyref \<times> pyref) \<times> pyval \<times> trace" where
  "decrypt_try E key ciphertext padding t =
     (let (r1, t1) = native_call E (Cf_data_from_bytes ciphertext) t;
          cf_data = ret r1
      in case key_of E key t1 of
           (Inl e, key1, t2) \<Rightarrow> (Inl e, (cf_data, None), key1, t2)
         | (Inr h, key1, t2) \<Rightarrow>
     (let (r2, t3) = native_call E (SecDecryptTransformCreate (sec_key_ref h)) t2;
          sec_transform = ret r2
      in case handle_cf_error (err r2) of
           Some e \<Rightarrow> (Inl e, (cf_data, sec_transform), key1, t3)
         | None \<Rightarrow>
     (let (r3, t4) = native_call E
            (SecTransformSetAttribute sec_transform kSecPaddingKey (PaddingValue padding)) t3
      in case handle_cf_error (err r3) of
           Some e \<Rightarrow> (Inl e, (cf_data, sec_transform), key1, t4)
         | None \<Rightarrow>
     (let (r4, t5) = native_call E
            (SecTransformSetAttribute sec_transform kSecTransformInputAttributeName
               (RefValue cf_data)) t4
      in case handle_cf_error (err r4) of
           Some e \<Rightarrow> (Inl e, (cf_data, sec_transform), key1, t5)
         | None \<Rightarrow>
     (let (r5, t6) = native_call E (SecTransformExecute sec_transform) t5;
          plaintext = ret r5
      in case handle_cf_error (err r5) of
           Some e \<Rightarrow> (Inl e, (cf_data, sec_transform), key1, t6)
         | None \<Rightarrow>
     (let (r6, t7) = native_call E (Cf_data_to_bytes plaintext) t6
      in (Inr (out_bytes r6), (cf_data, sec_transform), key1, t7)))))))"

text \<open>\<^verbatim>\<open>_decrypt\<close>\<close>

definition p_decrypt ::
  "env \<Rightarrow> pyval \<Rightarrow> pyval \<Rightarrow> padding_key option \<Rightarrow> trace \<Rightarrow>
     (exn + bytes) \<times> pyval \<times> trace" where
  "p_decrypt E private_key ciphertext padding t =
     (if \<not> is_PrivateKey private_key then
        (Inl (ValueError (''private_key must be an instance of the PrivateKey class, not '' @
            class_name private_key)), private_key, t)
      else case ciphertext of
        Bytes c \<Rightarrow>
          (case padding of
             None \<Rightarrow> (Inl (ValueError ''padding must be specified''), private_key, t)
           | Some pad \<Rightarrow>
             (let (res, (cf_data, sec_transform), key1, t1) =
                    decrypt_try E private_key c pad t
              in (res, key1, release_if E sec_transform (release_if E cf_data t1))))
      | _ \<Rightarrow>
          (Inl (ValueError (''ciphertext must be a byte string, not '' @
             class_name ciphertext)), private_key, t))"

subsection \<open>Operation pipeline: sign and verify\<close>

text \<open>The set \<^verbatim>\<open>{'md5', 'sha1', 'sha224', 'sha256', 'sha384', 'sha512'}\<close> of both checks.\<close>

definition hash_names :: "string set" where
  "hash_names = {''md5'', ''sha1'', ''sha224'', ''sha256'', ''sha384'', ''sha512''}"

text \<open>The dictionary \<^verbatim>\<open>hash_constant\<close>; \<open>None\<close> is a missing key.\<close>

definition hash_constant :: "string \<Rightarrow> digest option" where
  "hash_constant h =
     (if h = ''md5'' then Some kSecDigestMD5
      else if h = ''sha1'' then Some kSecDigestSHA1
      else if h = ''sha224'' then Some kSecDigestSHA2
      else if h = ''sha256'' then Some kSecDigestSHA2
      else if h = ''sha384'' then Some kSecDigestSHA2
      else if h = ''sha512'' then Some kSecDigestSHA2
      else None)"

text \<open>The dictionary \<^verbatim>\<open>hash_length\<close> of \<^verbatim>\<open>_sign\<close> and \<^verbatim>\<open>_verify\<close>, in bits.\<close>

definition sha2_hash_length :: "string \<Rightarrow> int option" where
  "sha2_hash_length h =
     (if h = ''sha224'' then Some 224
      else if h = ''sha256'' then Some 256
      else if h = ''sha384'' then Some 384
      else if h = ''sha512'' then Some 512
      else None)"

text \<open>The locals that the \<^verbatim>\<open>finally\<close> blocks of \<^verbatim>\<open>_sign\<close> and \<^verbatim>\<open>_verify\<close> read.\<close>

record frame =
  v_cf_signature :: pyref
  v_cf_data :: pyref
  v_cf_hash_length :: pyref
  v_sec_transform :: pyref

text \<open>
  Lines 832 to 863 of \<^verbatim>\<open>_verify\<close> and lines 1050 to 1081 of \<^verbatim>\<open>_sign\<close> are the same
  statements, written here once, in four parts. Each part returns the exception raised,
  if any, and what it has changed. First (1050 to 1060): the digest type.
\<close>

definition set_digest_type :: "env \<Rightarrow> string \<Rightarrow> frame \<Rightarrow> trace \<Rightarrow> exn option \<times> trace" where
  "set_digest_type E hash_algorithm L t =
     (case hash_constant hash_algorithm of
        None \<Rightarrow> (Some (KeyError hash_algorithm), t)
      | Some hc \<Rightarrow>
          (let (r3, t1) = native_call E
                 (SecTransformSetAttribute (v_sec_transform L) kSecDigestTypeAttribute
                    (DigestValue hc)) t
           in (handle_cf_error (err r3), t1)))"

text \<open>Second (1062 to 1073): for the four SHA-2 names, the digest length.\<close>

definition set_digest_length ::
  "env \<Rightarrow> string \<Rightarrow> frame \<Rightarrow> trace \<Rightarrow> exn option \<times> frame \<times> trace" where
  "set_digest_length E hash_algorithm L t =
     (if hash_algorithm \<in> {''sha224'', ''sha256'', ''sha384'', ''sha512''} then
        (case sha2_hash_length hash_algorithm of
           None \<Rightarrow> (Some (KeyError hash_algorithm), L, t)
         | Some hash_length \<Rightarrow>
             (let (r4, t1) = native_call E (Cf_number_from_integer hash_length) t;
                  L1 = L\<lparr>v_cf_hash_length := ret r4\<rparr>;
                  (r5, t2) = native_call E
                    (SecTransformSetAttribute (v_sec_transform L1) kSecDigestLengthAttribute
                       (RefValue (v_cf_hash_length L1))) t1
              in (handle_cf_error (err r5), L1, t2)))
      else (None, L, t))"

text \<open>Third (1075 to 1077): for an RSA key, the PKCS1 padding.\<close>

definition set_rsa_padding ::
  "env \<Rightarrow> pyval \<Rightarrow> frame \<Rightarrow> trace \<Rightarrow> exn option \<times> pyval \<times> trace" where
  "set_rsa_padding E key L t =
     (case key_of E key t of
        (Inl e, key1, t1) \<Rightarrow> (Some e, key1, t1)
      | (Inr h, key1, t1) \<Rightarrow>
          (if algorithm (asn1 h) = ''rsa'' then
             (let (r6, t2) = native_call E
                    (SecTransformSetAttribute (v_sec_transform L) kSecPaddingKey
                       (PaddingValue kSecPaddingPKCS1Key)) t1
              in (handle_cf_error (err r6), key1, t2))
           else (None, key1, t1)))"

text \<open>Fourth (1079 to 1081): the input data.\<close>

definition set_input_data ::
  "env \<Rightarrow> bytes \<Rightarrow> frame \<Rightarrow> trace \<Rightarrow> exn option \<times> frame \<times> trace" where
  "set_input_data E data L t =
     (let (r7, t1) = native_call E (Cf_data_from_bytes data) t;
          L1 = L\<lparr>v_cf_data := ret r7\<rparr>;
          (r8, t2) = native_call E
            (SecTransformSetAttribute (v_sec_transform L1) kSecTransformInputAttributeName
               (RefValue (v_cf_data L1))) t1
      in (handle_cf_error (err r8), L1, t2))"

text \<open>The four parts in sequence, each left at the first exception.\<close>

definition configure_transform ::
  "env \<Rightarrow> pyval \<Rightarrow> bytes \<Rightarrow> string \<Rightarrow> frame \<Rightarrow> trace \<Rightarrow>
     exn option \<times> frame \<times> pyval \<times> trace" where
  "configure_transform E key data hash_algorithm L t =
     (case set_digest_type E hash_algorithm L t of
        (Some e, t1) \<Rightarrow> (Some e, L, key, t1)
      | (None, t1) \<Rightarrow>
     (case set_digest_length E hash_algorithm L t1 of
        (Some e, L1, t2) \<Rightarrow> (Some e, L1, key, t2)
      | (None, L1, t2) \<Rightarrow>
     (case set_rsa_padding E key L1 t2 of
        (Some e, key1, t3) \<Rightarrow> (Some e, L1, key1, t3)
      | (None, key1, t3) \<Rightarrow>
     (case set_input_data E data L1 t3 of
        (e, L2, t4) \<Rightarrow> (e, L2, key1, t4)))))"

text \<open>The \<^verbatim>\<open>finally\<close> block of \<^verbatim>\<open>_sign\<close> and of \<^verbatim>\<open>_verify\<close>.\<close>

definition sign_verify_finally :: "env \<Rightarrow> frame \<Rightarrow> trace \<Rightarrow> trace" where
  "sign_verify_finally E L t =
     release_if E (v_cf_hash_length L)
       (release_if E (v_cf_data L)
          (release_if E (v_cf_signature L)
             (release_if E (v_sec_transform L) t)))"

definition empty_frame :: frame where
  "empty_frame = \<lparr>v_cf_signature = None, v_cf_data = None, v_cf_hash_length = None,
                  v_sec_transform = None\<rparr>"

text \<open>The \<^verbatim>\<open>try\<close> block of \<^verbatim>\<open>_verify\<close>; a normal end returns \<^verbatim>\<open>None\<close>.\<close>

definition verify_try ::
  "env \<Rightarrow> pyval \<Rightarrow> bytes \<Rightarrow> bytes \<Rightarrow> string \<Rightarrow> trace \<Rightarrow>
     (exn + unit) \<times> frame \<times> pyval \<times> trace" where
  "verify_try E key signature data hash_algorithm t =
     (let (r1, t1) = native_call E (Cf_data_from_bytes signature) t;
          L1 = empty_frame\<lparr>v_cf_signature := ret r1\<rparr>
      in case key_of E key t1 of
           (Inl e, key1, t2) \<Rightarrow> (Inl e, L1, key1, t2)
         | (Inr h, key1, t2) \<Rightarrow>
     (let (r2, t3) = native_call E
            (SecVerifyTransformCreate (sec_key_ref h) (v_cf_signature L1)) t2;
          L2 = L1\<lparr>v_sec_transform := ret r2\<rparr>
      in case handle_cf_error (err r2) of
           Some e \<Rightarrow> (Inl e, L2, key1, t3)
         | None \<Rightarrow>
     (case configure_transform E key1 data hash_algorithm L2 t3 of
        (Some e, L3, key2, t4) \<Rightarrow> (Inl e, L3, key2, t4)
      | (None, L3, key2, t4) \<Rightarrow>
     (let (r9, t5) = native_call E (SecTransformExecute (v_sec_transform L3)) t4;
          res = ret r9
      in case handle_cf_error (err r9) of
           Some e \<Rightarrow> (Inl e, L3, key2, t5)
         | None \<Rightarrow>
     (let (r10, t6) = native_call E (CFBooleanGetValue res) t5
      in if \<not> out_bool r10 then (Inl (SignatureError ''Signature is invalid''), L3, key2, t6)
         else (Inr (), L3, key2, t6))))))"

text \<open>\<^verbatim>\<open>_verify\<close>\<close>

definition p_verify ::
  "env \<Rightarrow> pyval \<Rightarrow> pyval \<Rightarrow> pyval \<Rightarrow> string \<Rightarrow> trace \<Rightarrow> (exn + unit) \<times> pyval \<times> trace" where
  "p_verify E certificate_or_public_key signature data hash_algorithm t =
     (if \<not> is_Certificate_or_PublicKey certificate_or_public_key then
        (Inl (ValueError (''certificate_or_public_key must be an instance of the '' @
            ''Certificate or PublicKey class, not '' @ class_name certificate_or_public_key)),
         certificate_or_public_key, t)
      else case signature of
        Bytes sg \<Rightarrow>
          (case data of
             Bytes d \<Rightarrow>
               (if hash_algorithm \<notin> hash_names then
                  (Inl (ValueError (''hash_algorithm must be one of \"md5\", \"sha1\", '' @
                      ''\"sha224\", \"sha256\", \"sha384\", \"sha512\", not '' @
                      repr_str hash_algorithm)),
                   certificate_or_public_key, t)
                else
                  (let (res, L, key1, t1) =
                         verify_try E certificate_or_public_key sg d hash_algorithm t
                   in (res, key1, sign_verify_finally E L t1)))
           | _ \<Rightarrow>
               (Inl (ValueError (''data must be a byte string, not '' @ class_name data)),
                certificate_or_public_key, t))
      | _ \<Rightarrow>
          (Inl (ValueError (''signature must be a byte string, not '' @ class_name signature)),
           certificate_or_public_key, t))"

text \<open>The \<^verbatim>\<open>try\<close> block of \<^verbatim>\<open>_sign\<close>.\<close>

definition sign_try ::
  "env \<Rightarrow> pyval \<Rightarrow> bytes \<Rightarrow> string \<Rightarrow> trace \<Rightarrow> (exn + bytes) \<times> frame \<times> pyval \<times> trace" where
  "sign_try E key data hash_algorithm t =
     (case key_of E key t of
        (Inl e, key1, t1) \<Rightarrow> (Inl e, empty_frame, key1, t1)
      | (Inr h, key1, t1) \<Rightarrow>
     (let (r2, t2) = native_call E (SecSignTransformCreate (sec_key_ref h)) t1;
          L2 = empty_frame\<lparr>v_sec_transform := ret r2\<rparr>
      in case handle_cf_error (err r2) of
           Some e \<Rightarrow> (Inl e, L2, key1, t2)
         | None \<Rightarrow>
     (case configure_transform E key1 data hash_algorithm L2 t2 of
        (Some e, L3, key2, t3) \<Rightarrow> (Inl e, L3, key2, t3)
      | (None, L3, key2, t3) \<Rightarrow>
     (let (r9, t4) = native_call E (SecTransformExecute (v_sec_transform L3)) t3;
          L4 = L3\<lparr>v_cf_signature := ret r9\<rparr>
      in case handle_cf_error (err r9) of
           Some e \<Rightarrow> (Inl e, L4, key2, t4)
         | None \<Rightarrow>
     (let (r10, t5) = native_call E (Cf_data_to_bytes (v_cf_signature L4)) t4
      in (Inr (out_bytes r10), L4, key2, t5))))))"

text \<open>\<^verbatim>\<open>_sign\<close>\<close>

definition p_sign ::
  "env \<Rightarrow> pyval \<Rightarrow> pyval \<Rightarrow> string \<Rightarrow> trace \<Rightarrow> (exn + bytes) \<times> pyval \<times> trace" where
  "p_sign E private_key data hash_algorithm t =
     (if \<not> is_PrivateKey private_key then
        (Inl (ValueError (''private_key must be an instance of PrivateKey, not '' @
            class_name private_key)), private_key, t)
      else case data of
        Bytes d \<Rightarrow>
          (if hash_algorithm \<notin> hash_names then
             (Inl (ValueError (''hash_algorithm must be one of \"md5\", \"sha1\", '' @
                 ''\"sha256\", \"sha384\", \"sha512\", not '' @
                 repr_str hash_algorithm)),
              private_key, t)
           else
             (let (res, L, key1, t1) = sign_try E private_key d hash_algorithm t
              in (res, key1, sign_verify_finally E L t1)))
      | _ \<Rightarrow>
          (Inl (ValueError (''data must be a byte string, not '' @ class_name data)),
           private_key, t))"

subsection \<open>Entry points\<close>

text \<open>
  The check that opens six of the entry points: \<^verbatim>\<open>if key.algo != name: raise ValueError\<close>.
  \<open>Inl\<close> is the exception raised; reading \<^verbatim>\<open>algo\<close> may itself raise.
\<close>

definition check_algo ::
  "env \<Rightarrow> pyval \<Rightarrow> string \<Rightarrow> string \<Rightarrow> trace \<Rightarrow> exn option \<times> pyval \<times> trace" where
  "check_algo E key name message t =
     (case key_of E key t of
        (Inl e, key1, t1) \<Rightarrow> (Some e, key1, t1)
      | (Inr h, key1, t1) \<Rightarrow>
          (if algorithm (asn1 h) \<noteq> name then (Some (ValueError message), key1, t1)
           else (None, key1, t1)))"

definition rsa_pkcs1v15_verify ::
  "env \<Rightarrow> pyval \<Rightarrow> pyval \<Rightarrow> pyval \<Rightarrow> string \<Rightarrow> trace \<Rightarrow> (exn + unit) \<times> pyval \<times> trace" where
  "rsa_pkcs1v15_verify E certificate_or_public_key signature data hash_algorithm t =
     (case check_algo E certificate_or_public_key ''rsa''
             ''The key specified is not an RSA public key'' t of
        (Some e, key1, t1) \<Rightarrow> (Inl e, key1, t1)
      | (None, key1, t1) \<Rightarrow> p_verify E key1 signature data hash_algorithm t1)"

definition dsa_verify ::
  "env \<Rightarrow> pyval \<Rightarrow> pyval \<Rightarrow> pyval \<Rightarrow> string \<Rightarrow> trace \<Rightarrow> (exn + unit) \<times> pyval \<times> trace" where
  "dsa_verify E certificate_or_public_key signature data hash_algorithm t =
     (case check_algo E certificate_or_public_key ''dsa''
             ''The key specified is not a DSA public key'' t of
        (Some e, key1, t1) \<Rightarrow> (Inl e, key1, t1)
      | (None, key1, t1) \<Rightarrow> p_verify E key1 signature data hash_algorithm t1)"

definition ecdsa_verify ::
  "env \<Rightarrow> pyval \<Rightarrow> pyval \<Rightarrow> pyval \<Rightarrow> string \<Rightarrow> trace \<Rightarrow> (exn + unit) \<times> pyval \<times> trace" where
  "ecdsa_verify E certificate_or_public_key signature data hash_algorithm t =
     (case check_algo E certificate_or_public_key ''ec''
             ''The key specified is not an EC public key'' t of
        (Some e, key1, t1) \<Rightarrow> (Inl e, key1, t1)
      | (None, key1, t1) \<Rightarrow> p_verify E key1 signature data hash_algorithm t1)"

definition rsa_pkcs1v15_sign ::
  "env \<Rightarrow> pyval \<Rightarrow> pyval \<Rightarrow> string \<Rightarrow> trace \<Rightarrow> (exn + bytes) \<times> pyval \<times> trace" where
  "rsa_pkcs1v15_sign E private_key data hash_algorithm t =
     (case check_algo E private_key ''rsa''
             ''The key specified is not an RSA private key'' t of
        (Some e, key1, t1) \<Rightarrow> (Inl e, key1, t1)
      | (None, key1, t1) \<Rightarrow> p_sign E key1 data hash_algorithm t1)"

definition dsa_sign ::
  "env \<Rightarrow> pyval \<Rightarrow> pyval \<Rightarrow> string \<Rightarrow> trace \<Rightarrow> (exn + bytes) \<times> pyval \<times> trace" where
  "dsa_sign E private_key data hash_algorithm t =
     (case check_algo E private_key ''dsa''
             ''The key specified is not a DSA private key'' t of
        (Some e, key1, t1) \<Rightarrow> (Inl e, key1, t1)
      | (None, key1, t1) \<Rightarrow> p_sign E key1 data hash_algorithm t1)"

definition ecdsa_sign ::
  "env \<Rightarrow> pyval \<Rightarrow> pyval \<Rightarrow> string \<Rightarrow> trace \<Rightarrow> (exn + bytes) \<times> pyval \<times> trace" where
  "ecdsa_sign E private_key data hash_algorithm t =
     (case check_algo E private_key ''ec''
             ''The key specified is not an EC private key'' t of
        (Some e, key1, t1) \<Rightarrow> (Inl e, key1, t1)
      | (None, key1, t1) \<Rightarrow> p_sign E key1 data hash_algorithm t1)"

text \<open>The table of \<^verbatim>\<open>rsa_pss_sign\<close> and \<^verbatim>\<open>rsa_pss_verify\<close>: \<^verbatim>\<open>{...}.get(hash_algorithm, 0)\<close>.\<close>

definition pss_hash_length :: "string \<Rightarrow> int" where
  "pss_hash_length h =
     (if h = ''sha1'' then 20
      else if h = ''sha224'' then 28
      else if h = ''sha256'' then 32
      else if h = ''sha384'' then 48
      else if h = ''sha512'' then 64
      else 0)"

definition rsa_pss_verify ::
  "env \<Rightarrow> pyval \<Rightarrow> pyval \<Rightarrow> pyval \<Rightarrow> string \<Rightarrow> trace \<Rightarrow> (exn + unit) \<times> pyval \<times> trace" where
  "rsa_pss_verify E certificate_or_public_key signature data hash_algorithm t =
     (if \<not> is_Certificate_or_PublicKey certificate_or_public_key then
        (Inl (ValueError (''certificate_or_public_key must be an instance of the '' @
            ''Certificate or PublicKey class, not '' @ class_name certificate_or_public_key)),
         certificate_or_public_key, t)
      else case data of
        Bytes d \<Rightarrow>
          (case check_algo E certificate_or_public_key ''rsa''
                  ''The key specified is not an RSA public key'' t of
             (Some e, key1, t1) \<Rightarrow> (Inl e, key1, t1)
           | (None, key1, t1) \<Rightarrow>
          (let hash_length = pss_hash_length hash_algorithm
           in case p_encrypt E key1 signature (Some kSecPaddingNoneKey) t1 of
                (Inl e, key2, t2) \<Rightarrow> (Inl e, key2, t2)
              | (Inr plaintext, key2, t2) \<Rightarrow>
          (case key_of E key2 t2 of
             (Inl e, key3, t3) \<Rightarrow> (Inl e, key3, t3)
           | (Inr h, key3, t3) \<Rightarrow>
          (case verify_pss_padding E hash_algorithm hash_length (bit_size (asn1 h)) d
                  plaintext of
             Inl e \<Rightarrow> (Inl e, key3, t3)
           | Inr ok \<Rightarrow>
               (if \<not> ok then (Inl (SignatureError ''Signature is invalid''), key3, t3)
                else (Inr (), key3, t3))))))
      | _ \<Rightarrow>
          (Inl (ValueError (''data must be a byte string, not '' @ class_name data)),
           certificate_or_public_key, t))"

definition rsa_pss_sign ::
  "env \<Rightarrow> pyval \<Rightarrow> pyval \<Rightarrow> string \<Rightarrow> trace \<Rightarrow> (exn + bytes) \<times> pyval \<times> trace" where
  "rsa_pss_sign E private_key data hash_algorithm t =
     (if \<not> is_PrivateKey private_key then
        (Inl (ValueError (''private_key must be an instance of the PrivateKey class, not '' @
            class_name private_key)), private_key, t)
      else case data of
        Bytes d \<Rightarrow>
          (case check_algo E private_key ''rsa''
                  ''The key specified is not an RSA private key'' t of
             (Some e, key1, t1) \<Rightarrow> (Inl e, key1, t1)
           | (None, key1, t1) \<Rightarrow>
          (let hash_length = pss_hash_length hash_algorithm
           in case key_of E key1 t1 of
                (Inl e, key2, t2) \<Rightarrow> (Inl e, key2, t2)
              | (Inr h, key2, t2) \<Rightarrow>
          (case add_pss_padding E hash_algorithm hash_length (bit_size (asn1 h)) d of
             Inl e \<Rightarrow> (Inl e, key2, t2)
           | Inr encoded_data \<Rightarrow>
               p_decrypt E key2 (Bytes encoded_data) (Some kSecPaddingNoneKey) t2)))
      | _ \<Rightarrow>
          (Inl (ValueError (''data must be a byte string, not '' @ class_name data)),
           private_key, t))"

subsection \<open>Vocabulary of the properties\<close>

text \<open>The three named curves of the EC check.\<close>

definition supported_curves :: "curve set" where
  "supported_curves = {Named ''secp256r1'', Named ''secp384r1'', Named ''secp521r1''}"

text \<open>The key structure held by a \<^verbatim>\<open>PrivateKey\<close> or \<^verbatim>\<open>PublicKey\<close> object.\<close>

fun obj_asn1 :: "pyval \<Rightarrow> keystruct option" where
  "obj_asn1 (PrivateKeyObj h) = Some (asn1 h)"
| "obj_asn1 (PublicKeyObj h) = Some (asn1 h)"
| "obj_asn1 v = None"









text \<open>
  The digest attributes set on a transform in a trace, in order, and the numbers wrapped,
  each with the reference returned for it.
\<close>

fun digest_settings :: "trace \<Rightarrow> (attr_name \<times> attr_value) list" where
  "digest_settings [] = []"
| "digest_settings ((SecTransformSetAttribute x kSecDigestTypeAttribute v, r) # t) =
     (kSecDigestTypeAttribute, v) # digest_settings t"
| "digest_settings ((SecTransformSetAttribute x kSecDigestLengthAttribute v, r) # t) =
     (kSecDigestLengthAttribute, v) # digest_settings t"
| "digest_settings (e # t) = digest_settings t"

fun numbers :: "trace \<Rightarrow> (int \<times> pyref) list" where
  "numbers [] = []"
| "numbers ((Cf_number_from_integer n, r) # t) = (n, ret r) # numbers t"
| "numbers (e # t) = numbers t"

text \<open>
  The mapping as the specification words it: \<^verbatim>\<open>md5\<close> and \<^verbatim>\<open>sha1\<close> have identifiers of their
  own and no length; the four SHA-2 names share one identifier and have the length 224,
  256, 384 or 512.
\<close>

definition claimed_digest :: "string \<Rightarrow> digest" where
  "claimed_digest h =
     (if h = ''md5'' then kSecDigestMD5 else if h = ''sha1'' then kSecDigestSHA1
      else kSecDigestSHA2)"

definition claimed_digest_length :: "string \<Rightarrow> int list" where
  "claimed_digest_length h =
     (if h = ''sha224'' then [224] else if h = ''sha256'' then [256]
      else if h = ''sha384'' then [384] else if h = ''sha512'' then [512] else [])"

text \<open>
  The settings \<open>S\<close> and wrapped numbers \<open>N\<close> of a digest configured as specified for
  the name \<open>h\<close>: the digest type, and for each length of \<open>h\<close> a number and the
  digest-length attribute holding the reference of that number.
\<close>

definition digest_configured ::
  "string \<Rightarrow> (attr_name \<times> attr_value) list \<Rightarrow> (int \<times> pyref) list \<Rightarrow> bool" where
  "digest_configured h S N \<longleftrightarrow>
     map fst N = claimed_digest_length h \<and>
     S = (kSecDigestTypeAttribute, DigestValue (claimed_digest h))
           # map (\<lambda>np. (kSecDigestLengthAttribute, RefValue (snd np))) N"

text \<open>The same, or what a call that fails on the way has done of it.\<close>

definition digest_partial ::
  "string \<Rightarrow> (attr_name \<times> attr_value) list \<Rightarrow> (int \<times> pyref) list \<Rightarrow> bool" where
  "digest_partial h S N \<longleftrightarrow>
     digest_configured h S N \<or>
     N = [] \<and> (S = [] \<or> S = [(kSecDigestTypeAttribute, DigestValue (claimed_digest h))])"


text \<open>Two lists extended by segments that satisfy \<open>P\<close>.\<close>

definition extends ::
  "('a list \<Rightarrow> 'b list \<Rightarrow> bool) \<Rightarrow> 'a list \<Rightarrow> 'b list \<Rightarrow> 'a list \<Rightarrow> 'b list \<Rightarrow> bool" where
  "extends P D N D' N' \<longleftrightarrow> (\<exists>S M. D' = D @ S \<and> N' = N @ M \<and> P S M)"


text \<open>
  The failure that a reply reports, 0 for none: the error reference for a call that is
  given a \<^verbatim>\<open>CFErrorRef *\<close>, the status for \<^verbatim>\<open>SecCertificateCopyPublicKey\<close>.
\<close>

fun failure :: "call \<Rightarrow> reply \<Rightarrow> nat" where
  "failure (SecCertificateCopyPublicKey x) r = status r"
| "failure (SecKeyCreateFromData a b) r = err r"
| "failure (SecEncryptTransformCreate k) r = err r"
| "failure (SecDecryptTransformCreate k) r = err r"
| "failure (SecSignTransformCreate k) r = err r"
| "failure (SecVerifyTransformCreate k s) r = err r"
| "failure (SecTransformSetAttribute x n v) r = err r"
| "failure (SecTransformExecute x) r = err r"
| "failure c r = 0"

text \<open>The failures reported in a trace, in order.\<close>

fun failures :: "trace \<Rightarrow> nat list" where
  "failures [] = []"
| "failures ((c, r) # t) = (if failure c r \<noteq> 0 then failure c r # failures t else failures t)"

text \<open>The booleans read from the result of a verify transform, in order.\<close>

fun verdicts :: "trace \<Rightarrow> bool list" where
  "verdicts [] = []"
| "verdicts ((CFBooleanGetValue x, r) # t) = out_bool r # verdicts t"
| "verdicts (e # t) = verdicts t"

text \<open>
  The native failure that an outcome carries: the code of the native-call failure
  \<^verbatim>\<open>OSError\<close>, nothing for any other outcome.
\<close>

fun exn_failure :: "exn \<Rightarrow> nat list" where
  "exn_failure (OSError n) = [n]"
| "exn_failure e = []"

fun failure_of :: "exn + 'a \<Rightarrow> nat list" where
  "failure_of (Inl e) = exn_failure e"
| "failure_of (Inr x) = []"

fun failure_of_opt :: "exn option \<Rightarrow> nat list" where
  "failure_of_opt (Some e) = exn_failure e"
| "failure_of_opt None = []"

text \<open>
  The verdict that the outcome of a verification carries: \<open>False\<close> for the
  signature-invalid failure, \<open>True\<close> for a normal return, nothing for any other failure.
\<close>

fun exn_verdict :: "exn \<Rightarrow> bool list" where
  "exn_verdict (SignatureError m) = [False]"
| "exn_verdict e = []"

fun verdict_of :: "exn + unit \<Rightarrow> bool list" where
  "verdict_of (Inl e) = exn_verdict e"
| "verdict_of (Inr u) = [True]"


text \<open>
  The handle of an object whose properties can be read without a native call: a key
  object, or a certificate whose public key has been derived already.
\<close>

fun handle_of :: "pyval \<Rightarrow> keyhandle option" where
  "handle_of (PrivateKeyObj k) = Some k"
| "handle_of (PublicKeyObj k) = Some k"
| "handle_of (CertificateObj c) = p_public_key c"
| "handle_of v = None"

text \<open>The calls of a trace, without the replies.\<close>

definition calls :: "trace \<Rightarrow> call list" where
  "calls t = map fst t"


text \<open>
  The certificates constructed natively in a trace: for each call of
  \<^verbatim>\<open>SecCertificateCreateWithData\<close>, its argument and the reference returned.
\<close>

fun cert_creates :: "trace \<Rightarrow> (pyref \<times> pyref) list" where
  "cert_creates [] = []"
| "cert_creates ((SecCertificateCreateWithData x, r) # t) = (x, ret r) # cert_creates t"
| "cert_creates (e # t) = cert_creates t"

text \<open>The byte strings wrapped in a trace, each with the reference returned for it.\<close>

fun wraps :: "trace \<Rightarrow> (bytes \<times> pyref) list" where
  "wraps [] = []"
| "wraps ((Cf_data_from_bytes b, r) # t) = (b, ret r) # wraps t"
| "wraps (e # t) = wraps t"

text \<open>The certificate handles of a bundle: the leaf, when there is one, then the others.\<close>

definition bundle_certs :: "certificate option \<Rightarrow> certificate list \<Rightarrow> certificate list" where
  "bundle_certs cert extras = (case cert of None \<Rightarrow> [] | Some c \<Rightarrow> [c]) @ extras"

text \<open>
  The handles \<open>hs\<close> have been loaded natively by the wrappings \<open>WS\<close> and the
  constructions \<open>CS\<close>: one after the other, the encoding of each certificate has been
  wrapped, the certificate constructed from the wrapped encoding, and the handle holds
  the reference returned and no derived key.
\<close>

definition natively_loaded ::
  "certificate list \<Rightarrow> (bytes \<times> pyref) list \<Rightarrow> (pyref \<times> pyref) list \<Rightarrow> bool" where
  "natively_loaded hs WS CS \<longleftrightarrow>
     map fst WS = map (\<lambda>h. cert_dump (cert_asn1 h)) hs \<and>
     map fst CS = map snd WS \<and>
     map snd CS = map sec_certificate_ref hs \<and>
     map p_public_key hs = map (\<lambda>h. None) hs"


text \<open>
  The digest attributes set in a trace, each with the transform it is set on.
\<close>

fun digest_calls :: "trace \<Rightarrow> (pyref \<times> attr_name \<times> attr_value) list" where
  "digest_calls [] = []"
| "digest_calls ((SecTransformSetAttribute x kSecDigestTypeAttribute v, r) # t) =
     (x, kSecDigestTypeAttribute, v) # digest_calls t"
| "digest_calls ((SecTransformSetAttribute x kSecDigestLengthAttribute v, r) # t) =
     (x, kSecDigestLengthAttribute, v) # digest_calls t"
| "digest_calls (e # t) = digest_calls t"

text \<open>
  What the specification asks of a pipeline that has created the transform \<open>x\<close> and
  makes its next call as call number \<open>i\<close>: that call sets the digest type of \<open>x\<close> to the
  identifier of the name; if it succeeds, each length of the name (none for \<^verbatim>\<open>md5\<close> and
  \<^verbatim>\<open>sha1\<close>) is wrapped by the call after it and set as the digest length of \<open>x\<close>.
\<close>

definition expected_numbers :: "env \<Rightarrow> string \<Rightarrow> pyref \<Rightarrow> nat \<Rightarrow> (int \<times> pyref) list" where
  "expected_numbers E h x i =
     (if err (native E i (SecTransformSetAttribute x kSecDigestTypeAttribute
                (DigestValue (claimed_digest h)))) = 0
      then map (\<lambda>b. (b, ret (native E (Suc i) (Cf_number_from_integer b))))
             (claimed_digest_length h)
      else [])"

definition expected_digest_calls ::
  "env \<Rightarrow> string \<Rightarrow> pyref \<Rightarrow> nat \<Rightarrow> (pyref \<times> attr_name \<times> attr_value) list" where
  "expected_digest_calls E h x i =
     (x, kSecDigestTypeAttribute, DigestValue (claimed_digest h))
       # map (\<lambda>np. (x, kSecDigestLengthAttribute, RefValue (snd np)))
           (expected_numbers E h x i)"


subsection \<open>Concrete collaborators and inputs\<close>

text \<open>
  A framework in which every call succeeds and the call numbered \<open>n\<close> returns the fresh
  reference \<open>n + 1\<close>; parsers that accept nothing; a padding primitive that refuses a
  hash length of 0, the table's value for a name it does not list, as the spec says the
  primitive does. Used to run the model on examples.
\<close>

definition ok_reply :: "nat \<Rightarrow> reply" where
  "ok_reply n = \<lparr>ret = Some (Suc n), err = 0, status = 0, out_bytes = [], out_bool = True\<rparr>"

definition env0 :: env where
  "env0 = \<lparr>native = (\<lambda>n c. ok_reply n),
           read_file = (\<lambda>p. Inl (IOError p)),
           encode_utf8 = (\<lambda>s. []),
           parse_certificate = (\<lambda>b. Inl (ValueError ''parse'')),
           parse_private = (\<lambda>b p. Inl (ValueError ''parse'')),
           parse_public = (\<lambda>b. Inl (ValueError ''parse'')),
           parse_pkcs12 = (\<lambda>b p. Inl (ValueError ''parse'')),
           add_pss_padding =
             (\<lambda>h l n m. if l = 0 then Inl (ValueError ''hash_algorithm'') else Inr m),
           verify_pss_padding =
             (\<lambda>h l n m b. if l = 0 then Inl (ValueError ''hash_algorithm'') else Inr (b = m))\<rparr>"

definition rsa_struct :: keystruct where
  "rsa_struct = \<lparr>algorithm = ''rsa'', bit_size = 2048, byte_size = 256, hash_algo = [],
                 curve = Implicit_ca, dump = [1], unwrap_dump = [2]\<rparr>"

definition rsa_handle :: keyhandle where
  "rsa_handle = \<lparr>sec_key_ref = Some 7, asn1 = rsa_struct\<rparr>"

definition rsa_x509 :: x509 where
  "rsa_x509 = \<lparr>cert_dump = [3], subject_public_key_info = rsa_struct\<rparr>"

definition rsa_cert :: certificate where
  "rsa_cert = \<lparr>sec_certificate_ref = Some 9, cert_asn1 = rsa_x509,
               p_public_key = Some rsa_handle\<rparr>"

definition ec_struct :: "string \<Rightarrow> keystruct" where
  "ec_struct n = \<lparr>algorithm = ''ec'', bit_size = 256, byte_size = 32, hash_algo = [],
                  curve = Named n, dump = [4], unwrap_dump = [5]\<rparr>"

definition dsa_struct :: "string \<Rightarrow> keystruct" where
  "dsa_struct h = \<lparr>algorithm = ''dsa'', bit_size = 1024, byte_size = 128, hash_algo = h,
                   curve = Implicit_ca, dump = [6], unwrap_dump = [7]\<rparr>"

text \<open>A PKCS\#12 decoder that finds no key, a leaf certificate and two more.\<close>

definition env_chain :: env where
  "env_chain = env0\<lparr>parse_pkcs12 :=
     (\<lambda>b p. Inr (None, Some (rsa_x509, ''rsa''),
                  [(rsa_x509\<lparr>cert_dump := [8]\<rparr>, ''rsa''), (rsa_x509, ''rsa'')]))\<rparr>"

text \<open>The same framework, except that every boolean it returns is false.\<close>

definition env_reject :: env where
  "env_reject = env0\<lparr>native := (\<lambda>n c. (ok_reply n)\<lparr>out_bool := False\<rparr>)\<rparr>"

text \<open>A PKCS\#12 decoder that finds a key, a leaf certificate and one more.\<close>

definition env_full :: env where
  "env_full = env0\<lparr>parse_pkcs12 :=
     (\<lambda>b p. Inr (Some (rsa_struct, ''rsa''), Some (rsa_x509, ''rsa''),
                  [(rsa_x509\<lparr>cert_dump := [8]\<rparr>, ''rsa'')]))\<rparr>"


section \<open>Properties\<close>

lemma snd_native_call: "snd (native_call E c t) = t @ [(c, native E (length t) c)]"
  by (simp add: native_call_def Let_def)

lemma fst_native_call: "fst (native_call E c t) = native E (length t) c"
  by (simp add: native_call_def Let_def)

lemma released_append: "released (t @ u) = released t @ released u"
  by (induction t rule: released.induct) simp_all

text \<open>
  C8. Releasing a key handle that holds a native reference makes exactly one
  \<^verbatim>\<open>CFRelease\<close> call, on that reference, and leaves the handle with \<^verbatim>\<open>None\<close>; releasing
  any handle a second time changes neither the handle nor the trace. A certificate
  first releases the public key derived from it, when there is one, then its own
  reference, and a second release is again without effect.
\<close>

theorem release_idempotent:
  "(truthy (sec_key_ref k) \<longrightarrow>
      fst (PrivateKey_del E k t) = k\<lparr>sec_key_ref := None\<rparr> \<and>
      released (snd (PrivateKey_del E k t)) = released t @ [sec_key_ref k] \<and>
      length (snd (PrivateKey_del E k t)) = Suc (length t))
   \<and> (case PrivateKey_del E k t of (k1, t1) \<Rightarrow>
        \<not> truthy (sec_key_ref k1) \<and> PrivateKey_del E k1 u = (k1, u))
   \<and> (p_public_key c = Some pk \<and> truthy (sec_key_ref pk) \<and> truthy (sec_certificate_ref c) \<longrightarrow>
        fst (Certificate_del E c t) = c\<lparr>sec_certificate_ref := None, p_public_key := None\<rparr> \<and>
        released (snd (Certificate_del E c t))
          = released t @ [sec_key_ref pk, sec_certificate_ref c] \<and>
        length (snd (Certificate_del E c t)) = Suc (Suc (length t)))
   \<and> (p_public_key c = None \<and> truthy (sec_certificate_ref c) \<longrightarrow>
        released (snd (Certificate_del E c t)) = released t @ [sec_certificate_ref c] \<and>
        length (snd (Certificate_del E c t)) = Suc (length t))
   \<and> (case Certificate_del E c t of (c1, t1) \<Rightarrow>
        p_public_key c1 = None \<and> \<not> truthy (sec_certificate_ref c1) \<and>
        Certificate_del E c1 u = (c1, u))"
  by (simp add: PrivateKey_del_def Certificate_del_def native_call_def Let_def
        released_append split: option.splits prod.splits)

theorem release_idempotent_witness:
  "truthy (sec_key_ref rsa_handle) \<and>
   released (snd (PrivateKey_del env0 rsa_handle [])) = [Some 7] \<and>
   PrivateKey_del env0 (fst (PrivateKey_del env0 rsa_handle [])) [] =
     (rsa_handle\<lparr>sec_key_ref := None\<rparr>, []) \<and>
   p_public_key rsa_cert = Some rsa_handle \<and> truthy (sec_certificate_ref rsa_cert) \<and>
   released (snd (Certificate_del env0 rsa_cert [])) = [Some 7, Some 9] \<and>
   length (snd (Certificate_del env0 rsa_cert [])) = 2"
  using release_idempotent [of rsa_handle env0 "[]" "[]" rsa_cert rsa_handle]
  by (simp add: rsa_handle_def rsa_cert_def split: prod.splits)

subsection \<open>Loader\<close>

lemma policy_ec:
  "algorithm k = ''ec'' \<Longrightarrow>
     (curve k \<in> supported_curves \<longrightarrow> load_key_policy k = None) \<and>
     (curve k \<notin> supported_curves \<longrightarrow> (\<exists>m. load_key_policy k = Some (PrivateKeyError m)))"
  by (cases "curve k") (auto simp: load_key_policy_def supported_curves_def)

lemma policy_dsa:
  "algorithm k = ''dsa'' \<Longrightarrow>
     load_key_policy k =
       (if hash_algo k = ''sha2'' then
          Some (PrivateKeyError (''OS X only supports DSA keys based on SHA1 (2048 bits or '' @
                               ''less) - this key is based on SHA2 and is '' @
                               str_int (bit_size k) @ '' bits''))
        else None)"
  by (simp add: load_key_policy_def)

lemma p_load_key_rejected:
  "key_fields ko = Some (p, k) \<Longrightarrow> load_key_policy k = Some e \<Longrightarrow>
     p_load_key E ko t = (Inl e, t)"
  by (simp add: p_load_key_def)


lemma p_load_key_accepted:
  assumes "p_load_key E ko t = (Inr obj, t')"
  shows "\<exists>p k r. key_fields ko = Some (p, k) \<and> load_key_policy k = None \<and>
           obj = (if p then PublicKeyObj \<lparr>sec_key_ref = r, asn1 = k\<rparr>
                  else PrivateKeyObj \<lparr>sec_key_ref = r, asn1 = k\<rparr>)"
proof (cases "key_fields ko")
  case None
  with assms show ?thesis by (simp add: p_load_key_def)
next
  case (Some pk)
  obtain p k where pk: "pk = (p, k)" by (cases pk)
  show ?thesis
  proof (cases "load_key_policy k")
    case (Some e)
    with assms \<open>key_fields ko = Some pk\<close> pk show ?thesis by (simp add: p_load_key_def)
  next
    case None
    show ?thesis
    proof (cases "key_type_of (algorithm k)")
      case None
      with assms \<open>key_fields ko = Some pk\<close> pk \<open>load_key_policy k = None\<close> show ?thesis
        by (simp add: p_load_key_def Let_def split_def)
    next
      case (Some kt)
      with assms \<open>key_fields ko = Some pk\<close> pk \<open>load_key_policy k = None\<close> show ?thesis
        by (cases p) (auto simp add: p_load_key_def Let_def split_def split: option.splits)
    qed
  qed
qed


lemma p_load_key_policy_ok:
  assumes "p_load_key E ko t = (Inr obj, t')" and "obj_asn1 obj = Some k"
  shows "load_key_policy k = None"
  using p_load_key_accepted [OF assms(1)] assms(2) by (auto split: if_splits)

lemma load_public_key_via:
  "load_public_key E src t = (Inr obj, t') \<Longrightarrow> \<exists>ko. p_load_key E ko t = (Inr obj, t')"
  by (cases src) (auto simp: load_public_key_def split: sum.splits prod.splits)

lemma load_private_key_via:
  "load_private_key E src pw t = (Inr obj, t') \<Longrightarrow> \<exists>ko. p_load_key E ko t = (Inr obj, t')"
  by (cases src) (auto simp: load_private_key_def split: sum.splits prod.splits)

lemma load_pkcs12_via:
  "load_pkcs12 E src pw t = (Inr (Some obj, c, es), t') \<Longrightarrow>
     \<exists>ko t1. p_load_key E ko t = (Inr obj, t1)"
  by (cases src)
     (auto simp: load_pkcs12_def Let_def split: sum.splits prod.splits option.splits)

lemma p_load_key_dsa_sha1:
  assumes "algorithm k = ''dsa''" and "hash_algo k \<noteq> ''sha2''"
  shows "(\<exists>d s r. (SecKeyCreateFromData d s, r)
            \<in> set (drop (length t) (snd (p_load_key E (PrivateKeyInfo k) t)))) \<and>
         (\<exists>d s r. (SecKeyCreateFromData d s, r)
            \<in> set (drop (length t) (snd (p_load_key E (PublicKeyInfo k) t)))) \<and>
         (\<forall>e. fst (p_load_key E (PrivateKeyInfo k) t) = Inl e \<longrightarrow> (\<exists>n. e = OSError n)) \<and>
         (\<forall>e. fst (p_load_key E (PublicKeyInfo k) t) = Inl e \<longrightarrow> (\<exists>n. e = OSError n))"
proof -
  have pol: "load_key_policy k = None" using assms by (simp add: load_key_policy_def)
  have kt: "key_type_of (algorithm k) = Some kSecAttrKeyTypeDSA"
    using assms by (simp add: key_type_of_def)
  show ?thesis
    by (auto simp add: p_load_key_def pol kt Let_def split_def handle_cf_error_def
          release_if_def native_call_def)
qed

lemma load_extra_certs_asn1:
  "map cert_asn1 (fst (load_extra_certs E infos t)) = map fst infos"
  by (induction infos arbitrary: t) (simp_all add: Let_def split_def p_load_x509_def)

lemma p_load_x509_asn1: "cert_asn1 (fst (p_load_x509 E c t)) = c"
  by (simp add: p_load_x509_def Let_def split_def)


text \<open>
  C6. A key structure whose algorithm is \<^verbatim>\<open>ec\<close> and whose curve is not one of the named
  curves secp256r1, secp384r1, secp521r1 is refused with \<^verbatim>\<open>PrivateKeyError\<close> by
  \<^verbatim>\<open>_load_key\<close>, \<^verbatim>\<open>load_public_key\<close>, \<^verbatim>\<open>load_private_key\<close> and \<^verbatim>\<open>load_pkcs12\<close>, whether
  the structure is passed in or comes from the parser, and the trace of native calls is
  returned as it was: no native call has been made. Conversely every key object that one
  of the three loaders returns for an \<^verbatim>\<open>ec\<close> structure has one of the three curves.
\<close>

theorem ec_named_curves_only:
  "(algorithm k = ''ec'' \<and> curve k \<notin> supported_curves \<longrightarrow>
      (\<exists>m. p_load_key E (PublicKeyInfo k) t = (Inl (PrivateKeyError m), t)) \<and>
      (\<exists>m. p_load_key E (PrivateKeyInfo k) t = (Inl (PrivateKeyError m), t)) \<and>
      (\<exists>m. load_public_key E (PublicKeyInfo k) t = (Inl (PrivateKeyError m), t)) \<and>
      (parse_public E b = Inr (k, x) \<longrightarrow>
         (\<exists>m. load_public_key E (Bytes b) t = (Inl (PrivateKeyError m), t))) \<and>
      (read_file E f = Inr b \<and> parse_public E b = Inr (k, x) \<longrightarrow>
         (\<exists>m. load_public_key E (Str f) t = (Inl (PrivateKeyError m), t))) \<and>
      (\<exists>m. load_private_key E (PrivateKeyInfo k) pw t = (Inl (PrivateKeyError m), t)) \<and>
      (check_password E pw = Inr p \<and> parse_private E b p = Inr (k, x) \<longrightarrow>
         (\<exists>m. load_private_key E (Bytes b) pw t = (Inl (PrivateKeyError m), t))) \<and>
      (check_password E pw = Inr p \<and> read_file E f = Inr b \<and>
       parse_private E b p = Inr (k, x) \<longrightarrow>
         (\<exists>m. load_private_key E (Str f) pw t = (Inl (PrivateKeyError m), t))) \<and>
      (check_password E pw = Inr p \<and> parse_pkcs12 E b p = Inr (Some (k, x), ci, ei) \<longrightarrow>
         (\<exists>m. load_pkcs12 E (Bytes b) pw t = (Inl (PrivateKeyError m), t))) \<and>
      (check_password E pw = Inr p \<and> read_file E f = Inr b \<and>
       parse_pkcs12 E b p = Inr (Some (k, x), ci, ei) \<longrightarrow>
         (\<exists>m. load_pkcs12 E (Str f) pw t = (Inl (PrivateKeyError m), t))))
   \<and> (obj_asn1 obj = Some k' \<and> algorithm k' = ''ec'' \<and>
       (load_public_key E src t = (Inr obj, t') \<or>
        load_private_key E src pw t = (Inr obj, t') \<or>
        load_pkcs12 E src pw t = (Inr (Some obj, c, es), t')) \<longrightarrow>
       curve k' \<in> supported_curves)"
proof -
  have rejected: "algorithm k = ''ec'' \<and> curve k \<notin> supported_curves \<longrightarrow>
      (\<exists>m. p_load_key E (PublicKeyInfo k) t = (Inl (PrivateKeyError m), t)) \<and>
      (\<exists>m. p_load_key E (PrivateKeyInfo k) t = (Inl (PrivateKeyError m), t)) \<and>
      (\<exists>m. load_public_key E (PublicKeyInfo k) t = (Inl (PrivateKeyError m), t)) \<and>
      (parse_public E b = Inr (k, x) \<longrightarrow>
         (\<exists>m. load_public_key E (Bytes b) t = (Inl (PrivateKeyError m), t))) \<and>
      (read_file E f = Inr b \<and> parse_public E b = Inr (k, x) \<longrightarrow>
         (\<exists>m. load_public_key E (Str f) t = (Inl (PrivateKeyError m), t))) \<and>
      (\<exists>m. load_private_key E (PrivateKeyInfo k) pw t = (Inl (PrivateKeyError m), t)) \<and>
      (check_password E pw = Inr p \<and> parse_private E b p = Inr (k, x) \<longrightarrow>
         (\<exists>m. load_private_key E (Bytes b) pw t = (Inl (PrivateKeyError m), t))) \<and>
      (check_password E pw = Inr p \<and> read_file E f = Inr b \<and>
       parse_private E b p = Inr (k, x) \<longrightarrow>
         (\<exists>m. load_private_key E (Str f) pw t = (Inl (PrivateKeyError m), t))) \<and>
      (check_password E pw = Inr p \<and> parse_pkcs12 E b p = Inr (Some (k, x), ci, ei) \<longrightarrow>
         (\<exists>m. load_pkcs12 E (Bytes b) pw t = (Inl (PrivateKeyError m), t))) \<and>
      (check_password E pw = Inr p \<and> read_file E f = Inr b \<and>
       parse_pkcs12 E b p = Inr (Some (k, x), ci, ei) \<longrightarrow>
         (\<exists>m. load_pkcs12 E (Str f) pw t = (Inl (PrivateKeyError m), t)))"
  proof (rule impI)
    assume a: "algorithm k = ''ec'' \<and> curve k \<notin> supported_curves"
    then obtain m where m: "load_key_policy k = Some (PrivateKeyError m)"
      using policy_ec [of k] by auto
    have pub: "p_load_key E (PublicKeyInfo k) u = (Inl (PrivateKeyError m), u)" for u
      using m by (simp add: p_load_key_def)
    have priv: "p_load_key E (PrivateKeyInfo k) u = (Inl (PrivateKeyError m), u)" for u
      using m by (simp add: p_load_key_def)
    show "(\<exists>m. p_load_key E (PublicKeyInfo k) t = (Inl (PrivateKeyError m), t)) \<and>
      (\<exists>m. p_load_key E (PrivateKeyInfo k) t = (Inl (PrivateKeyError m), t)) \<and>
      (\<exists>m. load_public_key E (PublicKeyInfo k) t = (Inl (PrivateKeyError m), t)) \<and>
      (parse_public E b = Inr (k, x) \<longrightarrow>
         (\<exists>m. load_public_key E (Bytes b) t = (Inl (PrivateKeyError m), t))) \<and>
      (read_file E f = Inr b \<and> parse_public E b = Inr (k, x) \<longrightarrow>
         (\<exists>m. load_public_key E (Str f) t = (Inl (PrivateKeyError m), t))) \<and>
      (\<exists>m. load_private_key E (PrivateKeyInfo k) pw t = (Inl (PrivateKeyError m), t)) \<and>
      (check_password E pw = Inr p \<and> parse_private E b p = Inr (k, x) \<longrightarrow>
         (\<exists>m. load_private_key E (Bytes b) pw t = (Inl (PrivateKeyError m), t))) \<and>
      (check_password E pw = Inr p \<and> read_file E f = Inr b \<and>
       parse_private E b p = Inr (k, x) \<longrightarrow>
         (\<exists>m. load_private_key E (Str f) pw t = (Inl (PrivateKeyError m), t))) \<and>
      (check_password E pw = Inr p \<and> parse_pkcs12 E b p = Inr (Some (k, x), ci, ei) \<longrightarrow>
         (\<exists>m. load_pkcs12 E (Bytes b) pw t = (Inl (PrivateKeyError m), t))) \<and>
      (check_password E pw = Inr p \<and> read_file E f = Inr b \<and>
       parse_pkcs12 E b p = Inr (Some (k, x), ci, ei) \<longrightarrow>
         (\<exists>m. load_pkcs12 E (Str f) pw t = (Inl (PrivateKeyError m), t)))"
      by (simp add: load_public_key_def load_private_key_def load_pkcs12_def pub priv)
  qed
  have accepted: "obj_asn1 obj = Some k' \<and> algorithm k' = ''ec'' \<and>
       (load_public_key E src t = (Inr obj, t') \<or>
        load_private_key E src pw t = (Inr obj, t') \<or>
        load_pkcs12 E src pw t = (Inr (Some obj, c, es), t')) \<longrightarrow>
       curve k' \<in> supported_curves"
  proof (rule impI)
    assume a: "obj_asn1 obj = Some k' \<and> algorithm k' = ''ec'' \<and>
       (load_public_key E src t = (Inr obj, t') \<or>
        load_private_key E src pw t = (Inr obj, t') \<or>
        load_pkcs12 E src pw t = (Inr (Some obj, c, es), t'))"
    have "\<exists>ko t1. p_load_key E ko t = (Inr obj, t1)"
    proof -
      from a consider
          (pub) "load_public_key E src t = (Inr obj, t')"
        | (priv) "load_private_key E src pw t = (Inr obj, t')"
        | (p12) "load_pkcs12 E src pw t = (Inr (Some obj, c, es), t')"
        by blast
      then show ?thesis
      proof cases
        case pub
        from load_public_key_via [OF pub] show ?thesis by blast
      next
        case priv
        from load_private_key_via [OF priv] show ?thesis by blast
      next
        case p12
        from load_pkcs12_via [OF p12] show ?thesis .
      qed
    qed
    then obtain ko t1 where "p_load_key E ko t = (Inr obj, t1)" by blast
    with a have "load_key_policy k' = None" using p_load_key_policy_ok by blast
    with a show "curve k' \<in> supported_curves" using policy_ec [of k'] by (auto split: if_splits)
  qed
  show ?thesis by (rule conjI [OF rejected accepted])
qed


theorem ec_named_curves_only_witness:
  "algorithm (ec_struct ''secp192r1'') = ''ec'' \<and>
   curve (ec_struct ''secp192r1'') \<notin> supported_curves \<and>
   (\<exists>m. load_public_key env0 (PublicKeyInfo (ec_struct ''secp192r1'')) [] =
          (Inl (PrivateKeyError m), [])) \<and>
   (\<exists>m. load_private_key env0 (PrivateKeyInfo (ec_struct ''secp192r1'')) NoneVal [] =
          (Inl (PrivateKeyError m), []))"
  using ec_named_curves_only [where k = "ec_struct ''secp192r1''" and E = env0 and t = "[]"
          and pw = NoneVal and obj = NoneVal]
  by (simp add: ec_struct_def supported_curves_def)

text \<open>
  C7. A key structure whose algorithm is \<^verbatim>\<open>dsa\<close> and whose \<^verbatim>\<open>hash_algo\<close> is \<^verbatim>\<open>sha2\<close> is
  refused with \<^verbatim>\<open>PrivateKeyError\<close> on every loading path, with no native call made; a key
  object returned for a \<^verbatim>\<open>dsa\<close> structure never has \<^verbatim>\<open>hash_algo\<close> \<^verbatim>\<open>sha2\<close>; and a \<^verbatim>\<open>dsa\<close>
  structure with any other \<^verbatim>\<open>hash_algo\<close> (\<^verbatim>\<open>sha1\<close>) passes the check: \<^verbatim>\<open>_load_key\<close> goes on
  to call \<^verbatim>\<open>SecKeyCreateFromData\<close> and can then fail only with the native error.
\<close>

theorem dsa_sha2_rejected:
  "(algorithm k = ''dsa'' \<and> hash_algo k = ''sha2'' \<longrightarrow>
      (\<exists>m. p_load_key E (PublicKeyInfo k) t = (Inl (PrivateKeyError m), t)) \<and>
      (\<exists>m. p_load_key E (PrivateKeyInfo k) t = (Inl (PrivateKeyError m), t)) \<and>
      (\<exists>m. load_public_key E (PublicKeyInfo k) t = (Inl (PrivateKeyError m), t)) \<and>
      (parse_public E b = Inr (k, x) \<longrightarrow>
         (\<exists>m. load_public_key E (Bytes b) t = (Inl (PrivateKeyError m), t))) \<and>
      (read_file E f = Inr b \<and> parse_public E b = Inr (k, x) \<longrightarrow>
         (\<exists>m. load_public_key E (Str f) t = (Inl (PrivateKeyError m), t))) \<and>
      (\<exists>m. load_private_key E (PrivateKeyInfo k) pw t = (Inl (PrivateKeyError m), t)) \<and>
      (check_password E pw = Inr p \<and> parse_private E b p = Inr (k, x) \<longrightarrow>
         (\<exists>m. load_private_key E (Bytes b) pw t = (Inl (PrivateKeyError m), t))) \<and>
      (check_password E pw = Inr p \<and> read_file E f = Inr b \<and>
       parse_private E b p = Inr (k, x) \<longrightarrow>
         (\<exists>m. load_private_key E (Str f) pw t = (Inl (PrivateKeyError m), t))) \<and>
      (check_password E pw = Inr p \<and> parse_pkcs12 E b p = Inr (Some (k, x), ci, ei) \<longrightarrow>
         (\<exists>m. load_pkcs12 E (Bytes b) pw t = (Inl (PrivateKeyError m), t))) \<and>
      (check_password E pw = Inr p \<and> read_file E f = Inr b \<and>
       parse_pkcs12 E b p = Inr (Some (k, x), ci, ei) \<longrightarrow>
         (\<exists>m. load_pkcs12 E (Str f) pw t = (Inl (PrivateKeyError m), t))))
   \<and> (obj_asn1 obj = Some k' \<and> algorithm k' = ''dsa'' \<and>
       (load_public_key E src t = (Inr obj, t') \<or>
        load_private_key E src pw t = (Inr obj, t') \<or>
        load_pkcs12 E src pw t = (Inr (Some obj, c, es), t')) \<longrightarrow>
       hash_algo k' \<noteq> ''sha2'')
   \<and> (algorithm k = ''dsa'' \<and> hash_algo k \<noteq> ''sha2'' \<longrightarrow>
        (\<exists>d s r. (SecKeyCreateFromData d s, r)
            \<in> set (drop (length t) (snd (p_load_key E (PrivateKeyInfo k) t)))) \<and>
        (\<exists>d s r. (SecKeyCreateFromData d s, r)
            \<in> set (drop (length t) (snd (p_load_key E (PublicKeyInfo k) t)))) \<and>
        (\<forall>e. fst (p_load_key E (PrivateKeyInfo k) t) = Inl e \<longrightarrow> (\<exists>n. e = OSError n)) \<and>
        (\<forall>e. fst (p_load_key E (PublicKeyInfo k) t) = Inl e \<longrightarrow> (\<exists>n. e = OSError n)))"
proof -
  have rejected: "algorithm k = ''dsa'' \<and> hash_algo k = ''sha2'' \<longrightarrow>
      (\<exists>m. p_load_key E (PublicKeyInfo k) t = (Inl (PrivateKeyError m), t)) \<and>
      (\<exists>m. p_load_key E (PrivateKeyInfo k) t = (Inl (PrivateKeyError m), t)) \<and>
      (\<exists>m. load_public_key E (PublicKeyInfo k) t = (Inl (PrivateKeyError m), t)) \<and>
      (parse_public E b = Inr (k, x) \<longrightarrow>
         (\<exists>m. load_public_key E (Bytes b) t = (Inl (PrivateKeyError m), t))) \<and>
      (read_file E f = Inr b \<and> parse_public E b = Inr (k, x) \<longrightarrow>
         (\<exists>m. load_public_key E (Str f) t = (Inl (PrivateKeyError m), t))) \<and>
      (\<exists>m. load_private_key E (PrivateKeyInfo k) pw t = (Inl (PrivateKeyError m), t)) \<and>
      (check_password E pw = Inr p \<and> parse_private E b p = Inr (k, x) \<longrightarrow>
         (\<exists>m. load_private_key E (Bytes b) pw t = (Inl (PrivateKeyError m), t))) \<and>
      (check_password E pw = Inr p \<and> read_file E f = Inr b \<and>
       parse_private E b p = Inr (k, x) \<longrightarrow>
         (\<exists>m. load_private_key E (Str f) pw t = (Inl (PrivateKeyError m), t))) \<and>
      (check_password E pw = Inr p \<and> parse_pkcs12 E b p = Inr (Some (k, x), ci, ei) \<longrightarrow>
         (\<exists>m. load_pkcs12 E (Bytes b) pw t = (Inl (PrivateKeyError m), t))) \<and>
      (check_password E pw = Inr p \<and> read_file E f = Inr b \<and>
       parse_pkcs12 E b p = Inr (Some (k, x), ci, ei) \<longrightarrow>
         (\<exists>m. load_pkcs12 E (Str f) pw t = (Inl (PrivateKeyError m), t)))"
  proof (rule impI)
    assume a: "algorithm k = ''dsa'' \<and> hash_algo k = ''sha2''"
    then obtain m where m: "load_key_policy k = Some (PrivateKeyError m)"
      using policy_dsa [of k] by auto
    have pub: "p_load_key E (PublicKeyInfo k) u = (Inl (PrivateKeyError m), u)" for u
      using m by (simp add: p_load_key_def)
    have priv: "p_load_key E (PrivateKeyInfo k) u = (Inl (PrivateKeyError m), u)" for u
      using m by (simp add: p_load_key_def)
    show "(\<exists>m. p_load_key E (PublicKeyInfo k) t = (Inl (PrivateKeyError m), t)) \<and>
      (\<exists>m. p_load_key E (PrivateKeyInfo k) t = (Inl (PrivateKeyError m), t)) \<and>
      (\<exists>m. load_public_key E (PublicKeyInfo k) t = (Inl (PrivateKeyError m), t)) \<and>
      (parse_public E b = Inr (k, x) \<longrightarrow>
         (\<exists>m. load_public_key E (Bytes b) t = (Inl (PrivateKeyError m), t))) \<and>
      (read_file E f = Inr b \<and> parse_public E b = Inr (k, x) \<longrightarrow>
         (\<exists>m. load_public_key E (Str f) t = (Inl (PrivateKeyError m), t))) \<and>
      (\<exists>m. load_private_key E (PrivateKeyInfo k) pw t = (Inl (PrivateKeyError m), t)) \<and>
      (check_password E pw = Inr p \<and> parse_private E b p = Inr (k, x) \<longrightarrow>
         (\<exists>m. load_private_key E (Bytes b) pw t = (Inl (PrivateKeyError m), t))) \<and>
      (check_password E pw = Inr p \<and> read_file E f = Inr b \<and>
       parse_private E b p = Inr (k, x) \<longrightarrow>
         (\<exists>m. load_private_key E (Str f) pw t = (Inl (PrivateKeyError m), t))) \<and>
      (check_password E pw = Inr p \<and> parse_pkcs12 E b p = Inr (Some (k, x), ci, ei) \<longrightarrow>
         (\<exists>m. load_pkcs12 E (Bytes b) pw t = (Inl (PrivateKeyError m), t))) \<and>
      (check_password E pw = Inr p \<and> read_file E f = Inr b \<and>
       parse_pkcs12 E b p = Inr (Some (k, x), ci, ei) \<longrightarrow>
         (\<exists>m. load_pkcs12 E (Str f) pw t = (Inl (PrivateKeyError m), t)))"
      by (simp add: load_public_key_def load_private_key_def load_pkcs12_def pub priv)
  qed
  have accepted: "obj_asn1 obj = Some k' \<and> algorithm k' = ''dsa'' \<and>
       (load_public_key E src t = (Inr obj, t') \<or>
        load_private_key E src pw t = (Inr obj, t') \<or>
        load_pkcs12 E src pw t = (Inr (Some obj, c, es), t')) \<longrightarrow>
       hash_algo k' \<noteq> ''sha2''"
  proof (rule impI)
    assume a: "obj_asn1 obj = Some k' \<and> algorithm k' = ''dsa'' \<and>
       (load_public_key E src t = (Inr obj, t') \<or>
        load_private_key E src pw t = (Inr obj, t') \<or>
        load_pkcs12 E src pw t = (Inr (Some obj, c, es), t'))"
    have "\<exists>ko t1. p_load_key E ko t = (Inr obj, t1)"
    proof -
      from a consider
          (pub) "load_public_key E src t = (Inr obj, t')"
        | (priv) "load_private_key E src pw t = (Inr obj, t')"
        | (p12) "load_pkcs12 E src pw t = (Inr (Some obj, c, es), t')"
        by blast
      then show ?thesis
      proof cases
        case pub
        from load_public_key_via [OF pub] show ?thesis by blast
      next
        case priv
        from load_private_key_via [OF priv] show ?thesis by blast
      next
        case p12
        from load_pkcs12_via [OF p12] show ?thesis .
      qed
    qed
    then obtain ko t1 where "p_load_key E ko t = (Inr obj, t1)" by blast
    with a have "load_key_policy k' = None" using p_load_key_policy_ok by blast
    with a show "hash_algo k' \<noteq> ''sha2''" using policy_dsa [of k'] by (auto split: if_splits)
  qed
  have sha1: "algorithm k = ''dsa'' \<and> hash_algo k \<noteq> ''sha2'' \<longrightarrow>
        (\<exists>d s r. (SecKeyCreateFromData d s, r)
            \<in> set (drop (length t) (snd (p_load_key E (PrivateKeyInfo k) t)))) \<and>
        (\<exists>d s r. (SecKeyCreateFromData d s, r)
            \<in> set (drop (length t) (snd (p_load_key E (PublicKeyInfo k) t)))) \<and>
        (\<forall>e. fst (p_load_key E (PrivateKeyInfo k) t) = Inl e \<longrightarrow> (\<exists>n. e = OSError n)) \<and>
        (\<forall>e. fst (p_load_key E (PublicKeyInfo k) t) = Inl e \<longrightarrow> (\<exists>n. e = OSError n))"
    using p_load_key_dsa_sha1 [where k = k and E = E and t = t] by blast
  show ?thesis by (rule conjI [OF rejected conjI [OF accepted sha1]])
qed



theorem dsa_sha2_rejected_witness:
  "algorithm (dsa_struct ''sha2'') = ''dsa'' \<and> hash_algo (dsa_struct ''sha2'') = ''sha2'' \<and>
   (\<exists>m. load_private_key env0 (PrivateKeyInfo (dsa_struct ''sha2'')) NoneVal [] =
          (Inl (PrivateKeyError m), [])) \<and>
   (\<exists>m. load_public_key env0 (PublicKeyInfo (dsa_struct ''sha2'')) [] =
          (Inl (PrivateKeyError m), []))"
  using dsa_sha2_rejected [where k = "dsa_struct ''sha2''" and E = env0 and t = "[]"
          and pw = NoneVal and obj = NoneVal]
  by (simp add: dsa_struct_def)

text \<open>
  C9. On a source that is neither a byte string, a unicode string nor a
  \<^verbatim>\<open>PublicKeyInfo\<close> (an \<^verbatim>\<open>int\<close>, \<^verbatim>\<open>None\<close>), \<^verbatim>\<open>load_public_key\<close> makes no native call but
  raises \<^verbatim>\<open>UnboundLocalError\<close>, not the \<^verbatim>\<open>ValueError\<close> naming the type that
  \<^verbatim>\<open>load_private_key\<close> raises on the same source.
\<close>

theorem load_public_key_wrong_type:
  "load_public_key E (Other ''int'') t = (Inl (UnboundLocalError ''public_key''), t) \<and>
   load_public_key E NoneVal t = (Inl (UnboundLocalError ''public_key''), t) \<and>
   load_private_key E (Other ''int'') NoneVal t =
     (Inl (ValueError (''source must be a byte string, unicode string or '' @
                       ''asn1crypto.keys.PrivateKeyInfo object, not int'')), t)"
  by (simp add: load_public_key_def load_private_key_def check_password_def)


lemma cert_creates_append: "cert_creates (t @ u) = cert_creates t @ cert_creates u"
  by (induction t rule: cert_creates.induct) simp_all

lemma wraps_append: "wraps (t @ u) = wraps t @ wraps u"
  by (induction t rule: wraps.induct) simp_all

lemma p_load_x509_loads:
  "\<exists>w c. wraps (snd (p_load_x509 E x t)) = wraps t @ [w] \<and>
         cert_creates (snd (p_load_x509 E x t)) = cert_creates t @ [c] \<and>
         natively_loaded [fst (p_load_x509 E x t)] [w] [c]"
  by (simp add: p_load_x509_def Let_def split_def release_if_def snd_native_call
        fst_native_call wraps_append cert_creates_append natively_loaded_def)

lemma natively_loaded_Cons:
  "natively_loaded [h] [w] [c] \<Longrightarrow> natively_loaded hs WS CS \<Longrightarrow>
     natively_loaded (h # hs) (w # WS) (c # CS)"
  by (simp add: natively_loaded_def)

lemma load_extra_certs_loads:
  "\<exists>WS CS. wraps (snd (load_extra_certs E infos t)) = wraps t @ WS \<and>
           cert_creates (snd (load_extra_certs E infos t)) = cert_creates t @ CS \<and>
           natively_loaded (fst (load_extra_certs E infos t)) WS CS"
proof (induction infos arbitrary: t)
  case Nil
  show ?case by (simp add: natively_loaded_def)
next
  case (Cons info infos)
  let ?p = "p_load_x509 E (fst info) t"
  obtain w c where wc: "wraps (snd ?p) = wraps t @ [w]"
      "cert_creates (snd ?p) = cert_creates t @ [c]" "natively_loaded [fst ?p] [w] [c]"
    using p_load_x509_loads [of E "fst info" t] by blast
  obtain WS CS where r: "wraps (snd (load_extra_certs E infos (snd ?p))) = wraps (snd ?p) @ WS"
      "cert_creates (snd (load_extra_certs E infos (snd ?p))) = cert_creates (snd ?p) @ CS"
      "natively_loaded (fst (load_extra_certs E infos (snd ?p))) WS CS"
    using Cons.IH [of "snd ?p"] by blast
  have "wraps (snd (load_extra_certs E (info # infos) t)) = wraps t @ (w # WS)"
       "cert_creates (snd (load_extra_certs E (info # infos) t)) = cert_creates t @ (c # CS)"
       "natively_loaded (fst (load_extra_certs E (info # infos) t)) (w # WS) (c # CS)"
    using wc r by (simp_all add: Let_def split_def natively_loaded_Cons)
  then show ?case by blast
qed

lemma p_load_key_no_cert:
  "cert_creates (snd (p_load_key E ko t)) = cert_creates t"
  by (simp add: p_load_key_def Let_def split_def release_if_def snd_native_call
        cert_creates_append split: option.splits)


lemma p_load_key_wraps: "\<exists>KW. wraps (snd (p_load_key E ko t)) = wraps t @ KW"
  by (simp add: p_load_key_def Let_def split_def release_if_def snd_native_call
        wraps_append split: option.splits)

lemma certs_part:
  fixes ci :: "(x509 \<times> string) option"
  assumes "(case ci of None \<Rightarrow> (None, t1)
            | Some info \<Rightarrow> (case p_load_x509 E (fst info) t1 of (c, u) \<Rightarrow> (Some c, u)))
           = (cert, t2)"
    and "load_extra_certs E ei t2 = (extras, t3)"
  shows "\<exists>WS CS. wraps t3 = wraps t1 @ WS \<and> cert_creates t3 = cert_creates t1 @ CS \<and>
           natively_loaded (bundle_certs cert extras) WS CS"
    and "map_option cert_asn1 cert = map_option fst ci"
    and "map cert_asn1 extras = map fst ei"
proof -
  obtain WS CS where e: "wraps t3 = wraps t2 @ WS" "cert_creates t3 = cert_creates t2 @ CS"
      "natively_loaded extras WS CS"
    using load_extra_certs_loads [of E ei t2] assms(2) by auto
  show "map cert_asn1 extras = map fst ei"
    using load_extra_certs_asn1 [of E ei t2] assms(2) by simp
  show "map_option cert_asn1 cert = map_option fst ci"
    using assms(1) p_load_x509_asn1 [of E _ t1]
    by (auto simp: split_def split: option.splits)
  show "\<exists>WS CS. wraps t3 = wraps t1 @ WS \<and> cert_creates t3 = cert_creates t1 @ CS \<and>
           natively_loaded (bundle_certs cert extras) WS CS"
  proof (cases ci)
    case None
    with assms(1) have "cert = None" "t2 = t1" by simp_all
    with e show ?thesis by (auto simp: bundle_certs_def)
  next
    case (Some info)
    with assms(1) have c: "cert = Some (fst (p_load_x509 E (fst info) t1))"
        "t2 = snd (p_load_x509 E (fst info) t1)"
      by (simp_all add: split_def)
    obtain w cc where l: "wraps t2 = wraps t1 @ [w]" "cert_creates t2 = cert_creates t1 @ [cc]"
        "natively_loaded [fst (p_load_x509 E (fst info) t1)] [w] [cc]"
      using p_load_x509_loads [of E "fst info" t1] c by auto
    have "wraps t3 = wraps t1 @ (w # WS)" "cert_creates t3 = cert_creates t1 @ (cc # CS)"
         "natively_loaded (bundle_certs cert extras) (w # WS) (cc # CS)"
      using e l c by (simp_all add: bundle_certs_def natively_loaded_Cons)
    then show ?thesis by blast
  qed
qed

lemma load_pkcs12_run:
  assumes "check_password E pw = Inr p" and "parse_pkcs12 E b p = Inr (ki, ci, ei)"
    and "src = Bytes b \<or> src = Str f \<and> read_file E f = Inr b"
  shows "load_pkcs12 E src pw t =
     (case (case ki of
              None \<Rightarrow> (Inr None, t)
            | Some info \<Rightarrow>
                (case p_load_key E (PrivateKeyInfo (fst info)) t of
                   (Inl e, t1) \<Rightarrow> (Inl e, t1)
                 | (Inr key, t1) \<Rightarrow> (Inr (Some key), t1))) of
        (Inl e, t1) \<Rightarrow> (Inl e, t1)
      | (Inr key, t1) \<Rightarrow>
     (let (cert, t2) =
            (case ci of
               None \<Rightarrow> (None, t1)
             | Some info \<Rightarrow> (case p_load_x509 E (fst info) t1 of (c, t') \<Rightarrow> (Some c, t')));
          (extra_certs, t3) = load_extra_certs E ei t2
      in (Inr (key, cert, extra_certs), t3)))"
  using assms by (auto simp: load_pkcs12_def)



text \<open>
  C10. When the decoder returns its three parts, \<^verbatim>\<open>load_pkcs12\<close> fails only if there is
  a key and \<^verbatim>\<open>_load_key\<close> fails on it, with that failure. On a container without a key
  it returns a bundle with an empty key slot; on one with a key that \<^verbatim>\<open>_load_key\<close>
  loads it returns a bundle holding that key; a missing leaf certificate never makes
  it fail. In every bundle returned, the key slot is empty exactly when the decoder
  found no key, the certificate slot is empty exactly when it found no leaf
  certificate and otherwise holds the handle of that certificate, the extra certificates
  are the handles of the decoder's extra certificates, one for each, in the decoder's
  order, and every certificate handle has been loaded natively: its encoding wrapped,
  the certificate constructed from it, the reference returned kept in the handle.
\<close>

theorem load_pkcs12_bundle:
  "check_password E pw = Inr p \<and> parse_pkcs12 E b p = Inr (ki, ci, ei) \<and>
   (src = Bytes b \<or> src = Str f \<and> read_file E f = Inr b) \<longrightarrow>
     (ki = None \<longrightarrow>
        (\<exists>cert extras t'. load_pkcs12 E src pw t = (Inr (None, cert, extras), t')))
   \<and> (\<forall>info key t1.
        ki = Some info \<and> p_load_key E (PrivateKeyInfo (fst info)) t = (Inr key, t1) \<longrightarrow>
          (\<exists>cert extras t'. load_pkcs12 E src pw t = (Inr (Some key, cert, extras), t')))
   \<and> (\<forall>info e t1.
        ki = Some info \<and> p_load_key E (PrivateKeyInfo (fst info)) t = (Inl e, t1) \<longrightarrow>
          load_pkcs12 E src pw t = (Inl e, t1))
   \<and> (\<forall>key cert extras t'.
        load_pkcs12 E src pw t = (Inr (key, cert, extras), t') \<longrightarrow>
          (key = None \<longleftrightarrow> ki = None) \<and>
          map_option cert_asn1 cert = map_option fst ci \<and>
          map cert_asn1 extras = map fst ei \<and>
          (\<exists>KW WS CS.
             wraps t' = wraps t @ KW @ WS \<and> (ki = None \<longrightarrow> KW = []) \<and>
             cert_creates t' = cert_creates t @ CS \<and>
             natively_loaded (bundle_certs cert extras) WS CS))"
proof (rule impI)
  assume a: "check_password E pw = Inr p \<and> parse_pkcs12 E b p = Inr (ki, ci, ei) \<and>
   (src = Bytes b \<or> src = Str f \<and> read_file E f = Inr b)"
  note run = load_pkcs12_run [OF conjunct1 [OF a] conjunct1 [OF conjunct2 [OF a]]
      conjunct2 [OF conjunct2 [OF a]], of t]
  have p1: "ki = None \<longrightarrow>
        (\<exists>cert extras t'. load_pkcs12 E src pw t = (Inr (None, cert, extras), t'))"
    by (simp add: run split_def Let_def)
  have p2: "\<forall>info key t1.
        ki = Some info \<and> p_load_key E (PrivateKeyInfo (fst info)) t = (Inr key, t1) \<longrightarrow>
          (\<exists>cert extras t'. load_pkcs12 E src pw t = (Inr (Some key, cert, extras), t'))"
    by (simp add: run split_def Let_def)
  have p3: "\<forall>info e t1.
        ki = Some info \<and> p_load_key E (PrivateKeyInfo (fst info)) t = (Inl e, t1) \<longrightarrow>
          load_pkcs12 E src pw t = (Inl e, t1)"
    by (simp add: run split_def Let_def)
  have p4: "\<forall>key cert extras t'.
        load_pkcs12 E src pw t = (Inr (key, cert, extras), t') \<longrightarrow>
          (key = None \<longleftrightarrow> ki = None) \<and>
          map_option cert_asn1 cert = map_option fst ci \<and>
          map cert_asn1 extras = map fst ei \<and>
          (\<exists>KW WS CS.
             wraps t' = wraps t @ KW @ WS \<and> (ki = None \<longrightarrow> KW = []) \<and>
             cert_creates t' = cert_creates t @ CS \<and>
             natively_loaded (bundle_certs cert extras) WS CS)"
  proof (intro allI impI)
    fix key cert extras t'
    assume r: "load_pkcs12 E src pw t = (Inr (key, cert, extras), t')"
    have k: "(key = None) = (ki = None)"
      using r unfolding run
      by (auto simp: Let_def split_def split: option.splits sum.splits prod.splits)
    have "\<exists>t1 t2 KW. wraps t1 = wraps t @ KW \<and> (ki = None \<longrightarrow> KW = []) \<and>
            cert_creates t1 = cert_creates t \<and>
            (case ci of None \<Rightarrow> (None, t1)
             | Some info \<Rightarrow> (case p_load_x509 E (fst info) t1 of (c, u) \<Rightarrow> (Some c, u)))
              = (cert, t2) \<and>
            load_extra_certs E ei t2 = (extras, t')"
    proof (cases ki)
      case None
      with r show ?thesis unfolding run
        by (auto simp: Let_def split: prod.splits)
    next
      case (Some info)
      obtain res t1 where pk: "p_load_key E (PrivateKeyInfo (fst info)) t = (res, t1)"
        by (cases "p_load_key E (PrivateKeyInfo (fst info)) t")
      obtain KW where kw: "wraps t1 = wraps t @ KW"
        using p_load_key_wraps [of E "PrivateKeyInfo (fst info)" t] pk by auto
      have cc: "cert_creates t1 = cert_creates t"
        using p_load_key_no_cert [of E "PrivateKeyInfo (fst info)" t] pk by simp
      show ?thesis
      proof (cases res)
        case (Inl e)
        with r Some pk show ?thesis unfolding run by simp
      next
        case (Inr k')
        with r Some pk have "\<exists>t2.
            (case ci of None \<Rightarrow> (None, t1)
             | Some info \<Rightarrow> (case p_load_x509 E (fst info) t1 of (c, u) \<Rightarrow> (Some c, u)))
              = (cert, t2) \<and>
            load_extra_certs E ei t2 = (extras, t')"
          unfolding run by (auto simp: Let_def split: prod.splits)
        with kw cc Some show ?thesis by auto
      qed
    qed
    then obtain t1 t2 KW where t: "wraps t1 = wraps t @ KW" "ki = None \<longrightarrow> KW = []"
        "cert_creates t1 = cert_creates t"
        "(case ci of None \<Rightarrow> (None, t1)
             | Some info \<Rightarrow> (case p_load_x509 E (fst info) t1 of (c, u) \<Rightarrow> (Some c, u)))
              = (cert, t2)"
        "load_extra_certs E ei t2 = (extras, t')"
      by blast
    from certs_part(1) [OF t(4) t(5)] obtain WS CS where
        w: "wraps t' = wraps t1 @ WS" "cert_creates t' = cert_creates t1 @ CS"
           "natively_loaded (bundle_certs cert extras) WS CS"
      by blast
    have "wraps t' = wraps t @ KW @ WS" "cert_creates t' = cert_creates t @ CS"
      using w t by simp_all
    with w(3) t(2) have ex: "\<exists>KW WS CS.
             wraps t' = wraps t @ KW @ WS \<and> (ki = None \<longrightarrow> KW = []) \<and>
             cert_creates t' = cert_creates t @ CS \<and>
             natively_loaded (bundle_certs cert extras) WS CS"
      by blast
    from k certs_part(2) [OF t(4) t(5)] certs_part(3) [OF t(4) t(5)] ex
    show "(key = None \<longleftrightarrow> ki = None) \<and>
          map_option cert_asn1 cert = map_option fst ci \<and>
          map cert_asn1 extras = map fst ei \<and>
          (\<exists>KW WS CS.
             wraps t' = wraps t @ KW @ WS \<and> (ki = None \<longrightarrow> KW = []) \<and>
             cert_creates t' = cert_creates t @ CS \<and>
             natively_loaded (bundle_certs cert extras) WS CS)"
      by blast
  qed
  from p1 p2 p3 p4 show "(ki = None \<longrightarrow>
        (\<exists>cert extras t'. load_pkcs12 E src pw t = (Inr (None, cert, extras), t')))
   \<and> (\<forall>info key t1.
        ki = Some info \<and> p_load_key E (PrivateKeyInfo (fst info)) t = (Inr key, t1) \<longrightarrow>
          (\<exists>cert extras t'. load_pkcs12 E src pw t = (Inr (Some key, cert, extras), t')))
   \<and> (\<forall>info e t1.
        ki = Some info \<and> p_load_key E (PrivateKeyInfo (fst info)) t = (Inl e, t1) \<longrightarrow>
          load_pkcs12 E src pw t = (Inl e, t1))
   \<and> (\<forall>key cert extras t'.
        load_pkcs12 E src pw t = (Inr (key, cert, extras), t') \<longrightarrow>
          (key = None \<longleftrightarrow> ki = None) \<and>
          map_option cert_asn1 cert = map_option fst ci \<and>
          map cert_asn1 extras = map fst ei \<and>
          (\<exists>KW WS CS.
             wraps t' = wraps t @ KW @ WS \<and> (ki = None \<longrightarrow> KW = []) \<and>
             cert_creates t' = cert_creates t @ CS \<and>
             natively_loaded (bundle_certs cert extras) WS CS))"
    by (intro conjI)
qed


theorem load_pkcs12_bundle_witness:
  "(\<exists>cert extras t'.
      load_pkcs12 env_chain (Bytes [1]) NoneVal [] = (Inr (None, cert, extras), t') \<and>
      map_option cert_asn1 cert = Some rsa_x509 \<and>
      map cert_asn1 extras = [rsa_x509\<lparr>cert_dump := [8]\<rparr>, rsa_x509]) \<and>
   (\<exists>cert extras t'.
      load_pkcs12 env_full (Bytes [1]) NoneVal []
        = (Inr (Some (PrivateKeyObj \<lparr>sec_key_ref = Some 3, asn1 = rsa_struct\<rparr>),
                cert, extras), t') \<and>
      map_option cert_asn1 cert = Some rsa_x509 \<and>
      map cert_asn1 extras = [rsa_x509\<lparr>cert_dump := [8]\<rparr>] \<and>
      map sec_certificate_ref (bundle_certs cert extras)
        = map snd (cert_creates t'))"
proof -
  let ?ei = "[(rsa_x509\<lparr>cert_dump := [8]\<rparr>, ''rsa''), (rsa_x509, ''rsa'')]"
  have h1: "check_password env_chain NoneVal = Inr None \<and>
     parse_pkcs12 env_chain [1] None = Inr (None, Some (rsa_x509, ''rsa''), ?ei) \<and>
     (Bytes [1] = Bytes [1] \<or> Bytes [1] = Str [] \<and> read_file env_chain [] = Inr [1])"
    by (simp add: env_chain_def env0_def check_password_def)
  note P = mp [OF load_pkcs12_bundle [where E = env_chain and pw = NoneVal and p = None
      and b = "[1]" and ki = None and ci = "Some (rsa_x509, ''rsa'')" and ei = ?ei
      and t = "[]" and src = "Bytes [1]" and f = "[]"] h1]
  from conjunct1 [OF P] obtain cert extras t' where
      l: "load_pkcs12 env_chain (Bytes [1]) NoneVal [] = (Inr (None, cert, extras), t')"
    by blast
  from conjunct2 [OF conjunct2 [OF conjunct2 [OF P]]] l
  have c1: "map_option cert_asn1 cert = Some rsa_x509"
       "map cert_asn1 extras = [rsa_x509\<lparr>cert_dump := [8]\<rparr>, rsa_x509]"
    by simp_all
  have first: "\<exists>cert extras t'.
      load_pkcs12 env_chain (Bytes [1]) NoneVal [] = (Inr (None, cert, extras), t') \<and>
      map_option cert_asn1 cert = Some rsa_x509 \<and>
      map cert_asn1 extras = [rsa_x509\<lparr>cert_dump := [8]\<rparr>, rsa_x509]"
    by (rule exI [of _ cert], rule exI [of _ extras], rule exI [of _ t'])
       (simp add: l c1)
  let ?key = "PrivateKeyObj \<lparr>sec_key_ref = Some 3, asn1 = rsa_struct\<rparr>"
  let ?ki = "Some (rsa_struct, ''rsa'')"
  let ?fi = "[(rsa_x509\<lparr>cert_dump := [8]\<rparr>, ''rsa'')]"
  have h2: "check_password env_full NoneVal = Inr None \<and>
     parse_pkcs12 env_full [1] None = Inr (?ki, Some (rsa_x509, ''rsa''), ?fi) \<and>
     (Bytes [1] = Bytes [1] \<or> Bytes [1] = Str [] \<and> read_file env_full [] = Inr [1])"
    by (simp add: env_full_def env0_def check_password_def)
  have k: "?ki = Some (rsa_struct, ''rsa'') \<and>
     p_load_key env_full (PrivateKeyInfo (fst (rsa_struct, ''rsa''))) []
       = (Inr ?key, snd (p_load_key env_full (PrivateKeyInfo rsa_struct) []))"
    by (simp add: p_load_key_def load_key_policy_def key_type_of_def native_call_def
          release_if_def handle_cf_error_def env_full_def env0_def ok_reply_def
          rsa_struct_def Let_def)
  note Q = mp [OF load_pkcs12_bundle [where E = env_full and pw = NoneVal and p = None
      and b = "[1]" and ki = ?ki and ci = "Some (rsa_x509, ''rsa'')" and ei = ?fi
      and t = "[]" and src = "Bytes [1]" and f = "[]"] h2]
  from mp [OF spec [OF spec [OF spec [OF conjunct1 [OF conjunct2 [OF Q]]]]] k]
  obtain cert2 extras2 t2 where
      l2: "load_pkcs12 env_full (Bytes [1]) NoneVal [] = (Inr (Some ?key, cert2, extras2), t2)"
    by blast
  from conjunct2 [OF conjunct2 [OF conjunct2 [OF Q]]] l2
  have c2: "map_option cert_asn1 cert2 = Some rsa_x509"
       "map cert_asn1 extras2 = [rsa_x509\<lparr>cert_dump := [8]\<rparr>]"
       "\<exists>KW WS CS. wraps t2 = wraps [] @ KW @ WS \<and> (?ki = None \<longrightarrow> KW = []) \<and>
           cert_creates t2 = cert_creates [] @ CS \<and>
           natively_loaded (bundle_certs cert2 extras2) WS CS"
    by simp_all
  from c2(3) have c3: "map sec_certificate_ref (bundle_certs cert2 extras2)
        = map snd (cert_creates t2)"
    by (auto simp: natively_loaded_def)
  have second: "\<exists>cert extras t'.
      load_pkcs12 env_full (Bytes [1]) NoneVal [] = (Inr (Some ?key, cert, extras), t') \<and>
      map_option cert_asn1 cert = Some rsa_x509 \<and>
      map cert_asn1 extras = [rsa_x509\<lparr>cert_dump := [8]\<rparr>] \<and>
      map sec_certificate_ref (bundle_certs cert extras) = map snd (cert_creates t')"
    by (rule exI [of _ cert2], rule exI [of _ extras2], rule exI [of _ t2])
       (simp add: l2 c2(1) c2(2) c3)
  show ?thesis by (rule conjI [OF first second])
qed

subsection \<open>Operation pipeline: bookkeeping of the trace\<close>



















































subsection \<open>Operation pipeline: the digest\<close>

lemma digest_settings_append:
  "digest_settings (t @ u) = digest_settings t @ digest_settings u"
  by (induction t rule: digest_settings.induct) simp_all

lemma numbers_append: "numbers (t @ u) = numbers t @ numbers u"
  by (induction t rule: numbers.induct) simp_all

lemma key_of_settings:
  "digest_settings (snd (snd (key_of E x t))) = digest_settings t"
  "numbers (snd (snd (key_of E x t))) = numbers t"
  by (cases x; simp add: key_of_def Certificate_public_key_def Let_def split_def
        snd_native_call digest_settings_append numbers_append split: option.splits)+

lemma release_if_settings:
  "digest_settings (release_if E x t) = digest_settings t"
  "numbers (release_if E x t) = numbers t"
  by (simp_all add: release_if_def snd_native_call digest_settings_append numbers_append)

lemma finally_settings:
  "digest_settings (sign_verify_finally E L t) = digest_settings t"
  "numbers (sign_verify_finally E L t) = numbers t"
  by (simp_all add: sign_verify_finally_def release_if_settings)

lemmas settings = key_of_settings release_if_settings finally_settings snd_native_call
  fst_native_call digest_settings_append numbers_append

lemma set_rsa_padding_settings:
  "digest_settings (snd (snd (set_rsa_padding E key L t))) = digest_settings t"
  "numbers (snd (snd (set_rsa_padding E key L t))) = numbers t"
  by (simp_all add: set_rsa_padding_def Let_def split_def settings split: sum.splits)

lemma set_input_data_settings:
  "digest_settings (snd (snd (set_input_data E d L t))) = digest_settings t"
  "numbers (snd (snd (set_input_data E d L t))) = numbers t"
  by (simp_all add: set_input_data_def Let_def split_def settings)

lemma configure_settings:
  assumes "h \<in> hash_names"
  shows "\<exists>S N. digest_settings (snd (snd (snd (configure_transform E key d h L t))))
                 = digest_settings t @ S \<and>
               numbers (snd (snd (snd (configure_transform E key d h L t)))) = numbers t @ N \<and>
               digest_partial h S N \<and>
               (fst (configure_transform E key d h L t) = None \<longrightarrow> digest_configured h S N)"
  using assms unfolding hash_names_def
  by (elim insertE emptyE;
      simp add: configure_transform_def set_digest_type_def set_digest_length_def
        hash_constant_def sha2_hash_length_def claimed_digest_def claimed_digest_length_def
        digest_partial_def digest_configured_def handle_cf_error_def
        Let_def split_def settings set_rsa_padding_settings set_input_data_settings
        split: option.splits)


lemma extends_refl: "P [] [] \<Longrightarrow> extends P D N D N"
  by (simp add: extends_def)

lemma digest_partial_nil: "digest_partial h [] []"
  by (simp add: digest_partial_def)

lemma configure_extends_partial:
  "h \<in> hash_names \<Longrightarrow> digest_settings t = D \<Longrightarrow> numbers t = N \<Longrightarrow>
     extends (digest_partial h) D N
       (digest_settings (snd (snd (snd (configure_transform E key d h L t)))))
       (numbers (snd (snd (snd (configure_transform E key d h L t)))))"
  using configure_settings [where h = h and E = E and key = key and d = d and L = L and t = t]
  by (auto simp: extends_def)

lemma configure_extends_configured:
  "h \<in> hash_names \<Longrightarrow> digest_settings t = D \<Longrightarrow> numbers t = N \<Longrightarrow>
   fst (configure_transform E key d h L t) = None \<Longrightarrow>
     extends (digest_configured h) D N
       (digest_settings (snd (snd (snd (configure_transform E key d h L t)))))
       (numbers (snd (snd (snd (configure_transform E key d h L t)))))"
  using configure_settings [where h = h and E = E and key = key and d = d and L = L and t = t]
  by (auto simp: extends_def)

lemma verify_try_partial:
  "h \<in> hash_names \<Longrightarrow>
     extends (digest_partial h) (digest_settings t) (numbers t)
       (digest_settings (snd (snd (snd (verify_try E key sg d h t)))))
       (numbers (snd (snd (snd (verify_try E key sg d h t)))))"
  by (simp add: verify_try_def Let_def split_def settings extends_refl digest_partial_nil
        configure_extends_partial split: option.splits sum.splits)

lemma verify_try_configured:
  "h \<in> hash_names \<Longrightarrow>
     (case fst (verify_try E key sg d h t) of
        Inl e \<Rightarrow> True
      | Inr x \<Rightarrow>
          extends (digest_configured h) (digest_settings t) (numbers t)
            (digest_settings (snd (snd (snd (verify_try E key sg d h t)))))
            (numbers (snd (snd (snd (verify_try E key sg d h t))))))"
  by (simp add: verify_try_def Let_def split_def settings
        configure_extends_configured split: option.splits sum.splits)

lemma sign_try_partial:
  "h \<in> hash_names \<Longrightarrow>
     extends (digest_partial h) (digest_settings t) (numbers t)
       (digest_settings (snd (snd (snd (sign_try E key d h t)))))
       (numbers (snd (snd (snd (sign_try E key d h t)))))"
  by (simp add: sign_try_def Let_def split_def settings extends_refl digest_partial_nil
        configure_extends_partial split: option.splits sum.splits)

lemma sign_try_configured:
  "h \<in> hash_names \<Longrightarrow>
     (case fst (sign_try E key d h t) of
        Inl e \<Rightarrow> True
      | Inr x \<Rightarrow>
          extends (digest_configured h) (digest_settings t) (numbers t)
            (digest_settings (snd (snd (snd (sign_try E key d h t)))))
            (numbers (snd (snd (snd (sign_try E key d h t))))))"
  by (simp add: sign_try_def Let_def split_def settings
        configure_extends_configured split: option.splits sum.splits)


lemma extends_both:
  "extends P D N D' N' \<Longrightarrow> (ok \<Longrightarrow> extends Q D N D' N') \<Longrightarrow>
     \<exists>S M. D' = D @ S \<and> N' = N @ M \<and> P S M \<and> (ok \<longrightarrow> Q S M)"
  by (auto simp: extends_def)

lemma p_sign_settings:
  assumes "h \<in> hash_names"
  shows "\<exists>S N. digest_settings (snd (snd (p_sign E key data h t))) = digest_settings t @ S \<and>
               numbers (snd (snd (p_sign E key data h t))) = numbers t @ N \<and>
               digest_partial h S N \<and>
               ((\<exists>x. fst (p_sign E key data h t) = Inr x) \<longrightarrow> digest_configured h S N)"
proof (cases "is_PrivateKey key \<and> (\<exists>d. data = Bytes d)")
  case False
  then have "snd (snd (p_sign E key data h t)) = t" "\<forall>x. fst (p_sign E key data h t) \<noteq> Inr x"
    by (auto simp: p_sign_def split: pyval.splits)
  then show ?thesis by (simp add: digest_partial_nil)
next
  case True
  then obtain d where d: "data = Bytes d" and k: "is_PrivateKey key" by blast
  have tr: "digest_settings (snd (snd (p_sign E key data h t)))
              = digest_settings (snd (snd (snd (sign_try E key d h t))))"
       "numbers (snd (snd (p_sign E key data h t)))
              = numbers (snd (snd (snd (sign_try E key d h t))))"
       "fst (p_sign E key data h t) = fst (sign_try E key d h t)"
    using assms d k by (simp_all add: p_sign_def split_def Let_def finally_settings)
  have ok: "(\<exists>x. fst (sign_try E key d h t) = Inr x) \<Longrightarrow>
     extends (digest_configured h) (digest_settings t) (numbers t)
       (digest_settings (snd (snd (snd (sign_try E key d h t)))))
       (numbers (snd (snd (snd (sign_try E key d h t)))))"
    using sign_try_configured [OF assms, where E = E and key = key and d = d and t = t]
    by auto
  show ?thesis
    unfolding tr by (rule extends_both [OF sign_try_partial [OF assms] ok])
qed

lemma p_verify_settings:
  assumes "h \<in> hash_names"
  shows "\<exists>S N. digest_settings (snd (snd (p_verify E key sg data h t))) = digest_settings t @ S \<and>
               numbers (snd (snd (p_verify E key sg data h t))) = numbers t @ N \<and>
               digest_partial h S N \<and>
               ((\<exists>x. fst (p_verify E key sg data h t) = Inr x) \<longrightarrow> digest_configured h S N)"
proof (cases "is_Certificate_or_PublicKey key \<and> (\<exists>d. data = Bytes d) \<and> (\<exists>s. sg = Bytes s)")
  case False
  then have "snd (snd (p_verify E key sg data h t)) = t"
            "\<forall>x. fst (p_verify E key sg data h t) \<noteq> Inr x"
    by (auto simp: p_verify_def split: pyval.splits)
  then show ?thesis by (simp add: digest_partial_nil)
next
  case True
  then obtain d s where d: "data = Bytes d" "sg = Bytes s"
    and k: "is_Certificate_or_PublicKey key" by blast
  have tr: "digest_settings (snd (snd (p_verify E key sg data h t)))
              = digest_settings (snd (snd (snd (verify_try E key s d h t))))"
       "numbers (snd (snd (p_verify E key sg data h t)))
              = numbers (snd (snd (snd (verify_try E key s d h t))))"
       "fst (p_verify E key sg data h t) = fst (verify_try E key s d h t)"
    using assms d k by (simp_all add: p_verify_def split_def Let_def finally_settings)
  have ok: "(\<exists>x. fst (verify_try E key s d h t) = Inr x) \<Longrightarrow>
     extends (digest_configured h) (digest_settings t) (numbers t)
       (digest_settings (snd (snd (snd (verify_try E key s d h t)))))
       (numbers (snd (snd (snd (verify_try E key s d h t)))))"
    using verify_try_configured [OF assms, where E = E and key = key and sg = s and d = d and t = t]
    by auto
  show ?thesis
    unfolding tr by (rule extends_both [OF verify_try_partial [OF assms] ok])
qed


lemma key_of_handle: "handle_of key = Some k \<Longrightarrow> key_of E key t = (Inr k, key, t)"
  by (cases key) (auto simp: key_of_def Certificate_public_key_def)

lemma digest_calls_append: "digest_calls (t @ u) = digest_calls t @ digest_calls u"
  by (induction t rule: digest_calls.induct) simp_all

lemma key_of_digest_calls:
  "digest_calls (snd (snd (key_of E x t))) = digest_calls t"
  by (cases x; simp add: key_of_def Certificate_public_key_def Let_def split_def
        snd_native_call digest_calls_append split: option.splits)

lemma release_if_digest_calls: "digest_calls (release_if E x t) = digest_calls t"
  by (simp add: release_if_def snd_native_call digest_calls_append)

lemma finally_digest_calls: "digest_calls (sign_verify_finally E L t) = digest_calls t"
  by (simp add: sign_verify_finally_def release_if_digest_calls)

lemmas dcalls = key_of_digest_calls release_if_digest_calls finally_digest_calls
  snd_native_call fst_native_call digest_calls_append numbers_append

lemma set_rsa_padding_digest_calls:
  "digest_calls (snd (snd (set_rsa_padding E key L t))) = digest_calls t"
  by (simp add: set_rsa_padding_def Let_def split_def dcalls split: sum.splits)

lemma set_input_data_digest_calls:
  "digest_calls (snd (snd (set_input_data E d L t))) = digest_calls t"
  by (simp add: set_input_data_def Let_def split_def dcalls)

lemma set_input_data_frame:
  "v_sec_transform (fst (snd (set_input_data E d L t))) = v_sec_transform L"
  by (simp add: set_input_data_def Let_def split_def)

lemma configure_exact:
  assumes "h \<in> hash_names"
  shows "digest_calls (snd (snd (snd (configure_transform E key d h L t))))
           = digest_calls t @ expected_digest_calls E h (v_sec_transform L) (length t)"
    and "numbers (snd (snd (snd (configure_transform E key d h L t))))
           = numbers t @ expected_numbers E h (v_sec_transform L) (length t)"
  using assms unfolding hash_names_def
  by (elim insertE emptyE;
      simp add: configure_transform_def set_digest_type_def set_digest_length_def
        hash_constant_def sha2_hash_length_def claimed_digest_def claimed_digest_length_def
        expected_digest_calls_def expected_numbers_def handle_cf_error_def
        Let_def split_def dcalls set_rsa_padding_digest_calls set_input_data_digest_calls
        set_rsa_padding_settings set_input_data_settings
        split: option.splits)+


lemma p_sign_exact:
  assumes "h \<in> hash_names" and "is_PrivateKey key" and "handle_of key = Some k"
  shows "(let n = length t;
              rc = native E n (SecSignTransformCreate (sec_key_ref k));
              t' = snd (snd (p_sign E key (Bytes d) h t))
          in digest_calls t' = digest_calls t @
               (if err rc = 0 then expected_digest_calls E h (ret rc) (Suc n) else []) \<and>
             numbers t' = numbers t @
               (if err rc = 0 then expected_numbers E h (ret rc) (Suc n) else []))"
  using assms(1,2)
  by (simp add: p_sign_def sign_try_def key_of_handle [OF assms(3)] Let_def split_def dcalls
        finally_settings configure_exact [OF assms(1)] handle_cf_error_def empty_frame_def
        split: option.splits)

lemma p_verify_exact:
  assumes "h \<in> hash_names" and "is_Certificate_or_PublicKey key" and "handle_of key = Some k"
  shows "(let n = length t;
              rs = native E n (Cf_data_from_bytes sg);
              rc = native E (Suc n) (SecVerifyTransformCreate (sec_key_ref k) (ret rs));
              t' = snd (snd (p_verify E key (Bytes sg) (Bytes d) h t))
          in digest_calls t' = digest_calls t @
               (if err rc = 0 then expected_digest_calls E h (ret rc) (Suc (Suc n)) else []) \<and>
             numbers t' = numbers t @
               (if err rc = 0 then expected_numbers E h (ret rc) (Suc (Suc n)) else []))"
  using assms(1,2)
  by (simp add: p_verify_def verify_try_def key_of_handle [OF assms(3)] Let_def split_def
        dcalls finally_settings configure_exact [OF assms(1)] handle_cf_error_def
        empty_frame_def split: option.splits)


text \<open>
  C5. For a hash name of the six, a byte string and a key object (or, for \<^verbatim>\<open>_verify\<close>, a
  certificate whose key is derived), \<^verbatim>\<open>_sign\<close> and \<^verbatim>\<open>_verify\<close>, once the transform is
  created without error, set on it the digest type \<^verbatim>\<open>kSecDigestMD5\<close> for \<^verbatim>\<open>md5\<close>,
  \<^verbatim>\<open>kSecDigestSHA1\<close> for \<^verbatim>\<open>sha1\<close>, and then wrap no number and set no digest length;
  for the four SHA-2 names they set the digest type \<^verbatim>\<open>kSecDigestSHA2\<close> and, if that call
  succeeds, wrap the number 224, 256, 384 or 512 and set it as the digest length. These
  are all the digest attributes they set and all the numbers they wrap; when the
  transform is not created they set and wrap nothing. For any key argument, the digest
  attributes and numbers added are that configuration when the call returns normally,
  and otherwise that configuration, the digest type alone, or nothing.
\<close>

theorem digest_mapping:
  "h \<in> hash_names \<Longrightarrow>
     (\<exists>S N. digest_settings (snd (snd (p_sign E key data h t))) = digest_settings t @ S \<and>
            numbers (snd (snd (p_sign E key data h t))) = numbers t @ N \<and>
            digest_partial h S N \<and>
            ((\<exists>x. fst (p_sign E key data h t) = Inr x) \<longrightarrow> digest_configured h S N))
   \<and> (\<exists>S N. digest_settings (snd (snd (p_verify E key sg data h t))) = digest_settings t @ S \<and>
            numbers (snd (snd (p_verify E key sg data h t))) = numbers t @ N \<and>
            digest_partial h S N \<and>
            ((\<exists>x. fst (p_verify E key sg data h t) = Inr x) \<longrightarrow> digest_configured h S N))
   \<and> (is_PrivateKey key \<and> handle_of key = Some k \<longrightarrow>
        (let n = length t;
             rc = native E n (SecSignTransformCreate (sec_key_ref k));
             t' = snd (snd (p_sign E key (Bytes d) h t))
         in digest_calls t' = digest_calls t @
              (if err rc = 0 then expected_digest_calls E h (ret rc) (Suc n) else []) \<and>
            numbers t' = numbers t @
              (if err rc = 0 then expected_numbers E h (ret rc) (Suc n) else [])))
   \<and> (is_Certificate_or_PublicKey key \<and> handle_of key = Some k \<longrightarrow>
        (let n = length t;
             rs = native E n (Cf_data_from_bytes s);
             rc = native E (Suc n) (SecVerifyTransformCreate (sec_key_ref k) (ret rs));
             t' = snd (snd (p_verify E key (Bytes s) (Bytes d) h t))
         in digest_calls t' = digest_calls t @
              (if err rc = 0 then expected_digest_calls E h (ret rc) (Suc (Suc n)) else []) \<and>
            numbers t' = numbers t @
              (if err rc = 0 then expected_numbers E h (ret rc) (Suc (Suc n)) else [])))"
proof (intro conjI impI)
  assume h: "h \<in> hash_names"
  show "\<exists>S N. digest_settings (snd (snd (p_sign E key data h t))) = digest_settings t @ S \<and>
            numbers (snd (snd (p_sign E key data h t))) = numbers t @ N \<and>
            digest_partial h S N \<and>
            ((\<exists>x. fst (p_sign E key data h t) = Inr x) \<longrightarrow> digest_configured h S N)"
    by (rule p_sign_settings [OF h])
  show "\<exists>S N. digest_settings (snd (snd (p_verify E key sg data h t))) = digest_settings t @ S \<and>
            numbers (snd (snd (p_verify E key sg data h t))) = numbers t @ N \<and>
            digest_partial h S N \<and>
            ((\<exists>x. fst (p_verify E key sg data h t) = Inr x) \<longrightarrow> digest_configured h S N)"
    by (rule p_verify_settings [OF h])
  {
    assume a: "is_PrivateKey key \<and> handle_of key = Some k"
    show "(let n = length t;
             rc = native E n (SecSignTransformCreate (sec_key_ref k));
             t' = snd (snd (p_sign E key (Bytes d) h t))
         in digest_calls t' = digest_calls t @
              (if err rc = 0 then expected_digest_calls E h (ret rc) (Suc n) else []) \<and>
            numbers t' = numbers t @
              (if err rc = 0 then expected_numbers E h (ret rc) (Suc n) else []))"
      by (rule p_sign_exact [OF h conjunct1 [OF a] conjunct2 [OF a]])
  }
  {
    assume a: "is_Certificate_or_PublicKey key \<and> handle_of key = Some k"
    show "(let n = length t;
             rs = native E n (Cf_data_from_bytes s);
             rc = native E (Suc n) (SecVerifyTransformCreate (sec_key_ref k) (ret rs));
             t' = snd (snd (p_verify E key (Bytes s) (Bytes d) h t))
         in digest_calls t' = digest_calls t @
              (if err rc = 0 then expected_digest_calls E h (ret rc) (Suc (Suc n)) else []) \<and>
            numbers t' = numbers t @
              (if err rc = 0 then expected_numbers E h (ret rc) (Suc (Suc n)) else []))"
      by (rule p_verify_exact [OF h conjunct1 [OF a] conjunct2 [OF a]])
  }
qed

theorem digest_mapping_witness:
  "''sha256'' \<in> hash_names \<and> ''md5'' \<in> hash_names \<and>
   is_PrivateKey (PrivateKeyObj rsa_handle) \<and>
   handle_of (PrivateKeyObj rsa_handle) = Some rsa_handle \<and>
   digest_calls (snd (snd (p_sign env0 (PrivateKeyObj rsa_handle) (Bytes [1]) ''sha256'' [])))
     = [(Some 1, kSecDigestTypeAttribute, DigestValue kSecDigestSHA2),
        (Some 1, kSecDigestLengthAttribute, RefValue (Some 3))] \<and>
   numbers (snd (snd (p_sign env0 (PrivateKeyObj rsa_handle) (Bytes [1]) ''sha256'' [])))
     = [(256, Some 3)] \<and>
   is_Certificate_or_PublicKey (PublicKeyObj rsa_handle) \<and>
   handle_of (PublicKeyObj rsa_handle) = Some rsa_handle \<and>
   digest_calls (snd (snd (p_verify env0 (PublicKeyObj rsa_handle) (Bytes [9]) (Bytes [1])
     ''md5'' [])))
     = [(Some 2, kSecDigestTypeAttribute, DigestValue kSecDigestMD5)] \<and>
   numbers (snd (snd (p_verify env0 (PublicKeyObj rsa_handle) (Bytes [9]) (Bytes [1])
     ''md5'' []))) = []"
proof -
  have h1: "''sha256'' \<in> hash_names" and h2: "''md5'' \<in> hash_names"
    by (simp_all add: hash_names_def)
  have a1: "is_PrivateKey (PrivateKeyObj rsa_handle) \<and>
            handle_of (PrivateKeyObj rsa_handle) = Some rsa_handle"
    by simp
  have a2: "is_Certificate_or_PublicKey (PublicKeyObj rsa_handle) \<and>
            handle_of (PublicKeyObj rsa_handle) = Some rsa_handle"
    by simp
  have n0: "native env0 = (\<lambda>n c. ok_reply n)"
    by (simp add: env0_def)
  note s1 = digest_mapping [OF h1, where E = env0 and key = "PrivateKeyObj rsa_handle"
      and k = rsa_handle and t = "[]" and d = "[1]"]
  note s2 = digest_mapping [OF h2, where E = env0 and key = "PublicKeyObj rsa_handle"
      and k = rsa_handle and t = "[]" and d = "[1]" and s = "[9]"]
  from mp [OF conjunct1 [OF conjunct2 [OF conjunct2 [OF s1]]] a1]
  have r1: "digest_calls (snd (snd (p_sign env0 (PrivateKeyObj rsa_handle) (Bytes [1])
              ''sha256'' [])))
     = [(Some 1, kSecDigestTypeAttribute, DigestValue kSecDigestSHA2),
        (Some 1, kSecDigestLengthAttribute, RefValue (Some 3))]"
     "numbers (snd (snd (p_sign env0 (PrivateKeyObj rsa_handle) (Bytes [1]) ''sha256'' [])))
     = [(256, Some 3)]"
    by (simp_all add: Let_def n0 ok_reply_def expected_digest_calls_def expected_numbers_def
          claimed_digest_def claimed_digest_length_def)
  from mp [OF conjunct2 [OF conjunct2 [OF conjunct2 [OF s2]]] a2]
  have r2: "digest_calls (snd (snd (p_verify env0 (PublicKeyObj rsa_handle) (Bytes [9])
              (Bytes [1]) ''md5'' [])))
     = [(Some 2, kSecDigestTypeAttribute, DigestValue kSecDigestMD5)]"
     "numbers (snd (snd (p_verify env0 (PublicKeyObj rsa_handle) (Bytes [9]) (Bytes [1])
     ''md5'' []))) = []"
    by (simp_all add: Let_def n0 ok_reply_def expected_digest_calls_def expected_numbers_def
          claimed_digest_def claimed_digest_length_def)
  from h1 h2 a1 a2 r1 r2 show ?thesis by simp
qed

subsection \<open>Operation pipeline: outcomes of a verification\<close>

lemma failures_append: "failures (t @ u) = failures t @ failures u"
  by (induction t rule: failures.induct) simp_all

lemma verdicts_append: "verdicts (t @ u) = verdicts t @ verdicts u"
  by (induction t rule: verdicts.induct) simp_all

lemma key_of_failures:
  "failures (snd (snd (key_of E x t))) = failures t @ failure_of (fst (key_of E x t))"
  "verdicts (snd (snd (key_of E x t))) = verdicts t"
  by (cases x; simp add: key_of_def Certificate_public_key_def Let_def split_def
        snd_native_call fst_native_call failures_append verdicts_append
        handle_sec_error_def split: option.splits)+

lemma release_if_failures:
  "failures (release_if E x t) = failures t"
  "verdicts (release_if E x t) = verdicts t"
  by (simp_all add: release_if_def snd_native_call failures_append verdicts_append)

lemma finally_failures:
  "failures (sign_verify_finally E L t) = failures t"
  "verdicts (sign_verify_finally E L t) = verdicts t"
  by (simp_all add: sign_verify_finally_def release_if_failures)

lemmas outcome = key_of_failures release_if_failures finally_failures snd_native_call
  fst_native_call failures_append verdicts_append handle_cf_error_def

lemma check_algo_failures:
  "failures (snd (snd (check_algo E key a m t)))
     = failures t @ failure_of_opt (fst (check_algo E key a m t))"
  "verdicts (snd (snd (check_algo E key a m t))) = verdicts t"
  by (simp_all add: check_algo_def split_def outcome split: sum.splits exn.splits)

lemma set_digest_type_failures:
  "failures (snd (set_digest_type E h L t))
     = failures t @ failure_of_opt (fst (set_digest_type E h L t))"
  "verdicts (snd (set_digest_type E h L t)) = verdicts t"
  by (simp_all add: set_digest_type_def Let_def split_def outcome split: option.splits)

lemma set_digest_length_failures:
  "failures (snd (snd (set_digest_length E h L t)))
     = failures t @ failure_of_opt (fst (set_digest_length E h L t))"
  "verdicts (snd (snd (set_digest_length E h L t))) = verdicts t"
  by (simp_all add: set_digest_length_def Let_def split_def outcome split: option.splits)

lemma set_rsa_padding_failures:
  "failures (snd (snd (set_rsa_padding E key L t)))
     = failures t @ failure_of_opt (fst (set_rsa_padding E key L t))"
  "verdicts (snd (snd (set_rsa_padding E key L t))) = verdicts t"
  by (simp_all add: set_rsa_padding_def Let_def split_def outcome
        split: sum.splits exn.splits)

lemma set_input_data_failures:
  "failures (snd (snd (set_input_data E d L t)))
     = failures t @ failure_of_opt (fst (set_input_data E d L t))"
  "verdicts (snd (snd (set_input_data E d L t))) = verdicts t"
  by (simp_all add: set_input_data_def Let_def split_def outcome)

lemma configure_failures:
  "failures (snd (snd (snd (configure_transform E key d h L t))))
     = failures t @ failure_of_opt (fst (configure_transform E key d h L t))"
  "verdicts (snd (snd (snd (configure_transform E key d h L t)))) = verdicts t"
  by (simp_all add: configure_transform_def split_def set_digest_type_failures
        set_digest_length_failures set_rsa_padding_failures set_input_data_failures
        split: option.splits exn.splits)


lemma key_of_Inl: "fst (key_of E x t) = Inl e \<Longrightarrow> exn_verdict e = []"
  by (cases x)
     (auto simp: key_of_def Certificate_public_key_def Let_def split_def handle_sec_error_def
           split: option.splits if_splits)

lemma stage_Some:
  "fst (set_digest_type E h L t) = Some e \<Longrightarrow> exn_verdict e = []"
  "fst (set_digest_length E h L t) = Some e \<Longrightarrow> exn_verdict e = []"
  "fst (set_rsa_padding E key L t) = Some e \<Longrightarrow> exn_verdict e = []"
  "fst (set_input_data E d L t) = Some e \<Longrightarrow> exn_verdict e = []"
  by (auto simp: set_digest_type_def set_digest_length_def set_rsa_padding_def
        set_input_data_def Let_def split_def handle_cf_error_def
        split: option.splits if_splits sum.splits dest: key_of_Inl)

lemma configure_Some:
  "fst (configure_transform E key d h L t) = Some e \<Longrightarrow> exn_verdict e = []"
  by (auto simp: configure_transform_def split_def split: option.splits dest: stage_Some)

lemma check_algo_Some:
  "fst (check_algo E key a m t) = Some e \<Longrightarrow> exn_verdict e = []"
  by (auto simp: check_algo_def split_def split: sum.splits if_splits dest: key_of_Inl)

lemma verify_try_failures:
  "failures (snd (snd (snd (verify_try E key sg d h t))))
     = failures t @ failure_of (fst (verify_try E key sg d h t))"
  by (simp add: verify_try_def Let_def split_def outcome configure_failures
        split: option.splits sum.splits exn.splits)

lemma verify_try_verdicts:
  "verdicts (snd (snd (snd (verify_try E key sg d h t))))
     = verdicts t @ verdict_of (fst (verify_try E key sg d h t))"
  by (auto simp add: verify_try_def Let_def split_def outcome configure_failures
        split: option.splits sum.splits dest: key_of_Inl configure_Some)

lemmas verify_try_outcome = verify_try_failures verify_try_verdicts

lemma p_verify_outcome:
  "failures (snd (snd (p_verify E key sg data h t)))
     = failures t @ failure_of (fst (p_verify E key sg data h t))"
  "verdicts (snd (snd (p_verify E key sg data h t)))
     = verdicts t @ verdict_of (fst (p_verify E key sg data h t))"
  by (simp_all add: p_verify_def Let_def split_def finally_failures verify_try_outcome
        split: pyval.splits)

lemma encrypt_try_outcome:
  "failures (snd (snd (snd (encrypt_try E key d pad t))))
     = failures t @ failure_of (fst (encrypt_try E key d pad t))"
  by (simp add: encrypt_try_def Let_def split_def outcome
        split: option.splits sum.splits exn.splits)

lemma p_encrypt_outcome:
  "failures (snd (snd (p_encrypt E key data pad t)))
     = failures t @ failure_of (fst (p_encrypt E key data pad t))"
  by (simp add: p_encrypt_def Let_def split_def release_if_failures encrypt_try_outcome
        split: pyval.splits)

lemma entry_verify_failures:
  "failures (snd (snd (rsa_pkcs1v15_verify E key sg data h t)))
     = failures t @ failure_of (fst (rsa_pkcs1v15_verify E key sg data h t))"
  "failures (snd (snd (dsa_verify E key sg data h t)))
     = failures t @ failure_of (fst (dsa_verify E key sg data h t))"
  "failures (snd (snd (ecdsa_verify E key sg data h t)))
     = failures t @ failure_of (fst (ecdsa_verify E key sg data h t))"
  by (simp_all add: rsa_pkcs1v15_verify_def dsa_verify_def ecdsa_verify_def split_def
        check_algo_failures p_verify_outcome split: option.splits)

lemma entry_verify_verdicts:
  "verdicts (snd (snd (rsa_pkcs1v15_verify E key sg data h t)))
     = verdicts t @ verdict_of (fst (rsa_pkcs1v15_verify E key sg data h t))"
  "verdicts (snd (snd (dsa_verify E key sg data h t)))
     = verdicts t @ verdict_of (fst (dsa_verify E key sg data h t))"
  "verdicts (snd (snd (ecdsa_verify E key sg data h t)))
     = verdicts t @ verdict_of (fst (ecdsa_verify E key sg data h t))"
  by (auto simp add: rsa_pkcs1v15_verify_def dsa_verify_def ecdsa_verify_def split_def
        check_algo_failures p_verify_outcome split: option.splits dest: check_algo_Some)


lemma rsa_pss_verify_invalid:
  assumes "is_Certificate_or_PublicKey key"
    and c: "check_algo E key ''rsa'' ''The key specified is not an RSA public key'' t
              = (None, key1, t1)"
    and e: "p_encrypt E key1 sg (Some kSecPaddingNoneKey) t1 = (Inr plaintext, key2, t2)"
    and k: "key_of E key2 t2 = (Inr kh, key3, t3)"
    and v: "verify_pss_padding E h (pss_hash_length h) (bit_size (asn1 kh)) d plaintext
              = Inr False"
  shows "rsa_pss_verify E key sg (Bytes d) h t
           = (Inl (SignatureError ''Signature is invalid''), key3, t3) \<and>
         failures t3 = failures t"
proof
  show "rsa_pss_verify E key sg (Bytes d) h t
           = (Inl (SignatureError ''Signature is invalid''), key3, t3)"
    using assms by (simp add: rsa_pss_verify_def)
  have "failures t1 = failures t"
    using check_algo_failures(1) [where E = E and key = key and a = "''rsa''"
            and m = "''The key specified is not an RSA public key''" and t = t]
    by (simp add: c)
  moreover have "failures t2 = failures t1"
    using p_encrypt_outcome [where E = E and key = key1 and data = sg
            and pad = "Some kSecPaddingNoneKey" and t = t1]
    by (simp add: e)
  moreover have "failures t3 = failures t2"
    using key_of_failures(1) [where E = E and x = key2 and t = t2] by (simp add: k)
  ultimately show "failures t3 = failures t" by simp
qed


text \<open>
  C3. For \<^verbatim>\<open>_verify\<close> and the three entry points built on it, the failures that the
  native calls of the operation report are exactly the one carried by its outcome, and
  the booleans it reads from the transform's result are exactly the verdict carried by
  its outcome. So the outcome is \<^verbatim>\<open>SignatureError\<close> exactly when the operation read the
  boolean false, and then no native call has reported a failure; it is \<^verbatim>\<open>OSError\<close>
  exactly when a native call reported a failure, and then no boolean was read. For
  \<^verbatim>\<open>rsa_pss_verify\<close>: when the key is an RSA key, the raw encryption returns a block
  and \<^verbatim>\<open>verify_pss_padding\<close> returns false for it, the outcome is \<^verbatim>\<open>SignatureError\<close>, and
  no native call has reported a failure.
\<close>

theorem signature_invalid_outcome:
  "(failures (snd (snd (p_verify E key sg data h t)))
      = failures t @ failure_of (fst (p_verify E key sg data h t)) \<and>
    verdicts (snd (snd (p_verify E key sg data h t)))
      = verdicts t @ verdict_of (fst (p_verify E key sg data h t)))
   \<and> (failures (snd (snd (rsa_pkcs1v15_verify E key sg data h t)))
      = failures t @ failure_of (fst (rsa_pkcs1v15_verify E key sg data h t)) \<and>
    verdicts (snd (snd (rsa_pkcs1v15_verify E key sg data h t)))
      = verdicts t @ verdict_of (fst (rsa_pkcs1v15_verify E key sg data h t)))
   \<and> (failures (snd (snd (dsa_verify E key sg data h t)))
      = failures t @ failure_of (fst (dsa_verify E key sg data h t)) \<and>
    verdicts (snd (snd (dsa_verify E key sg data h t)))
      = verdicts t @ verdict_of (fst (dsa_verify E key sg data h t)))
   \<and> (failures (snd (snd (ecdsa_verify E key sg data h t)))
      = failures t @ failure_of (fst (ecdsa_verify E key sg data h t)) \<and>
    verdicts (snd (snd (ecdsa_verify E key sg data h t)))
      = verdicts t @ verdict_of (fst (ecdsa_verify E key sg data h t)))
   \<and> (is_Certificate_or_PublicKey key \<and>
       check_algo E key ''rsa'' ''The key specified is not an RSA public key'' t
         = (None, key1, t1) \<and>
       p_encrypt E key1 sg (Some kSecPaddingNoneKey) t1 = (Inr plaintext, key2, t2) \<and>
       key_of E key2 t2 = (Inr kh, key3, t3) \<and>
       verify_pss_padding E h (pss_hash_length h) (bit_size (asn1 kh)) d plaintext
         = Inr False \<longrightarrow>
       rsa_pss_verify E key sg (Bytes d) h t
         = (Inl (SignatureError ''Signature is invalid''), key3, t3) \<and>
       failures t3 = failures t)"
  using rsa_pss_verify_invalid [where E = E and key = key and ?key1.0 = key1 and ?t1.0 = t1
          and sg = sg and plaintext = plaintext and ?key2.0 = key2 and ?t2.0 = t2
          and kh = kh and ?key3.0 = key3 and ?t3.0 = t3 and h = h and d = d and t = t]
  by (simp add: p_verify_outcome entry_verify_failures entry_verify_verdicts)

theorem signature_invalid_outcome_witness:
  "rsa_pss_verify env0 (PublicKeyObj rsa_handle) (Bytes [1]) (Bytes [2]) ''sha256'' []
     = (Inl (SignatureError ''Signature is invalid''), PublicKeyObj rsa_handle,
        snd (snd (p_encrypt env0 (PublicKeyObj rsa_handle) (Bytes [1])
                    (Some kSecPaddingNoneKey) []))) \<and>
   failures (snd (snd (p_encrypt env0 (PublicKeyObj rsa_handle) (Bytes [1])
                    (Some kSecPaddingNoneKey) []))) = [] \<and>
   fst (p_verify env_reject (PublicKeyObj rsa_handle) (Bytes [9]) (Bytes [1]) ''md5'' [])
     = Inl (SignatureError ''Signature is invalid'') \<and>
   verdicts (snd (snd (p_verify env_reject (PublicKeyObj rsa_handle) (Bytes [9]) (Bytes [1])
     ''md5'' []))) = [False] \<and>
   failures (snd (snd (p_verify env_reject (PublicKeyObj rsa_handle) (Bytes [9]) (Bytes [1])
     ''md5'' []))) = []"
proof -
  let ?key = "PublicKeyObj rsa_handle"
  let ?e = "p_encrypt env0 ?key (Bytes [1]) (Some kSecPaddingNoneKey) []"
  have c: "check_algo env0 ?key ''rsa'' ''The key specified is not an RSA public key'' []
             = (None, ?key, [])"
    by (simp add: check_algo_def key_of_def rsa_handle_def rsa_struct_def)
  have e: "?e = (Inr [], ?key, snd (snd ?e))"
    by (simp add: p_encrypt_def encrypt_try_def key_of_def native_call_def env0_def
          ok_reply_def handle_cf_error_def Let_def)
  have k: "key_of env0 ?key (snd (snd ?e)) = (Inr rsa_handle, ?key, snd (snd ?e))"
    by (simp add: key_of_def)
  have v: "verify_pss_padding env0 ''sha256'' (pss_hash_length ''sha256'')
             (bit_size (asn1 rsa_handle)) [2] [] = Inr False"
    by (simp add: env0_def pss_hash_length_def)
  have r: "fst (p_verify env_reject ?key (Bytes [9]) (Bytes [1]) ''md5'' [])
             = Inl (SignatureError ''Signature is invalid'')"
    by (simp add: p_verify_def verify_try_def configure_transform_def set_digest_type_def
          set_digest_length_def set_rsa_padding_def set_input_data_def key_of_def
          native_call_def env_reject_def env0_def ok_reply_def rsa_handle_def rsa_struct_def
          handle_cf_error_def hash_names_def hash_constant_def empty_frame_def Let_def)
  from signature_invalid_outcome [where E = env0 and key = ?key and ?key1.0 = ?key
          and ?t1.0 = "[]" and sg = "Bytes [1]" and plaintext = "[]" and ?key2.0 = ?key
          and ?t2.0 = "snd (snd ?e)" and kh = rsa_handle and ?key3.0 = ?key
          and ?t3.0 = "snd (snd ?e)" and h = "''sha256''" and d = "[2]" and t = "[]"]
       c e k v
  have pss: "rsa_pss_verify env0 ?key (Bytes [1]) (Bytes [2]) ''sha256'' []
               = (Inl (SignatureError ''Signature is invalid''), ?key, snd (snd ?e)) \<and>
             failures (snd (snd ?e)) = []"
    by simp
  from signature_invalid_outcome [where E = env_reject and key = ?key and sg = "Bytes [9]"
          and data = "Bytes [1]" and h = "''md5''" and t = "[]"] r
  have "verdicts (snd (snd (p_verify env_reject ?key (Bytes [9]) (Bytes [1]) ''md5'' [])))
          = [False]"
       "failures (snd (snd (p_verify env_reject ?key (Bytes [9]) (Bytes [1]) ''md5'' [])))
          = []"
    by simp_all
  with pss r show ?thesis by simp
qed

subsection \<open>Entry points: the hash name\<close>

lemma check_algo_handle:
  "handle_of key = Some k \<Longrightarrow>
     check_algo E key a m t =
       (if algorithm (asn1 k) \<noteq> a then Some (ValueError m) else None, key, t)"
  by (simp add: check_algo_def key_of_handle)

lemma p_sign_bad_hash:
  "h \<notin> hash_names \<Longrightarrow> \<exists>m. p_sign E key data h t = (Inl (ValueError m), key, t)"
  by (cases data) (auto simp: p_sign_def)

lemma p_verify_bad_hash:
  "h \<notin> hash_names \<Longrightarrow> \<exists>m. p_verify E key sg data h t = (Inl (ValueError m), key, t)"
  by (cases data; cases sg) (auto simp: p_verify_def)

lemma entry_bad_hash:
  assumes "h \<notin> hash_names" and "handle_of key = Some k"
  shows "\<exists>m. rsa_pkcs1v15_sign E key data h t = (Inl (ValueError m), key, t)"
    and "\<exists>m. dsa_sign E key data h t = (Inl (ValueError m), key, t)"
    and "\<exists>m. ecdsa_sign E key data h t = (Inl (ValueError m), key, t)"
    and "\<exists>m. rsa_pkcs1v15_verify E key sg data h t = (Inl (ValueError m), key, t)"
    and "\<exists>m. dsa_verify E key sg data h t = (Inl (ValueError m), key, t)"
    and "\<exists>m. ecdsa_verify E key sg data h t = (Inl (ValueError m), key, t)"
  using p_sign_bad_hash [OF assms(1), of E key data t]
        p_verify_bad_hash [OF assms(1), of E key sg data t]
  by (auto simp: rsa_pkcs1v15_sign_def dsa_sign_def ecdsa_sign_def rsa_pkcs1v15_verify_def
        dsa_verify_def ecdsa_verify_def check_algo_handle [OF assms(2)])

lemma rsa_pss_sign_unfold:
  "algorithm (asn1 k) = ''rsa'' \<Longrightarrow>
   rsa_pss_sign E (PrivateKeyObj k) (Bytes d) h t =
     (case add_pss_padding E h (pss_hash_length h) (bit_size (asn1 k)) d of
        Inl e \<Rightarrow> (Inl e, PrivateKeyObj k, t)
      | Inr encoded_data \<Rightarrow>
          p_decrypt E (PrivateKeyObj k) (Bytes encoded_data) (Some kSecPaddingNoneKey) t)"
  by (simp add: rsa_pss_sign_def check_algo_def key_of_def)


text \<open>
  C1, as the code has it. For a hash name outside the six, \<^verbatim>\<open>_sign\<close> and \<^verbatim>\<open>_verify\<close>
  raise \<^verbatim>\<open>ValueError\<close> with no native call, and so do the six entry points built on
  them (\<^verbatim>\<open>rsa_pkcs1v15_sign\<close>, \<^verbatim>\<open>dsa_sign\<close>, \<^verbatim>\<open>ecdsa_sign\<close> and the three \<^verbatim>\<open>verify\<close>)
  when the key argument is a key object or a certificate whose public key is derived
  already. \<^verbatim>\<open>rsa_pss_sign\<close> does not check the name: it passes it, with the hash length 0,
  to \<^verbatim>\<open>add_pss_padding\<close> before any native call, and a failure of that primitive is the
  outcome, with no native call made.
\<close>

theorem bad_hash_rejected:
  "h \<notin> hash_names \<longrightarrow>
     (\<exists>m. p_sign E key data h t = (Inl (ValueError m), key, t)) \<and>
     (\<exists>m. p_verify E key sg data h t = (Inl (ValueError m), key, t)) \<and>
     (handle_of key = Some k \<longrightarrow>
        (\<exists>m. rsa_pkcs1v15_sign E key data h t = (Inl (ValueError m), key, t)) \<and>
        (\<exists>m. dsa_sign E key data h t = (Inl (ValueError m), key, t)) \<and>
        (\<exists>m. ecdsa_sign E key data h t = (Inl (ValueError m), key, t)) \<and>
        (\<exists>m. rsa_pkcs1v15_verify E key sg data h t = (Inl (ValueError m), key, t)) \<and>
        (\<exists>m. dsa_verify E key sg data h t = (Inl (ValueError m), key, t)) \<and>
        (\<exists>m. ecdsa_verify E key sg data h t = (Inl (ValueError m), key, t))) \<and>
     (algorithm (asn1 k) = ''rsa'' \<and>
      add_pss_padding E h 0 (bit_size (asn1 k)) d = Inl e \<longrightarrow>
        rsa_pss_sign E (PrivateKeyObj k) (Bytes d) h t = (Inl e, PrivateKeyObj k, t))"
proof (intro impI conjI)
  assume h: "h \<notin> hash_names"
  show "\<exists>m. p_sign E key data h t = (Inl (ValueError m), key, t)"
    by (rule p_sign_bad_hash [OF h])
  show "\<exists>m. p_verify E key sg data h t = (Inl (ValueError m), key, t)"
    by (rule p_verify_bad_hash [OF h])
  {
    assume k: "handle_of key = Some k"
    show "\<exists>m. rsa_pkcs1v15_sign E key data h t = (Inl (ValueError m), key, t)"
      by (rule entry_bad_hash(1) [OF h k])
    show "\<exists>m. dsa_sign E key data h t = (Inl (ValueError m), key, t)"
      by (rule entry_bad_hash(2) [OF h k])
    show "\<exists>m. ecdsa_sign E key data h t = (Inl (ValueError m), key, t)"
      by (rule entry_bad_hash(3) [OF h k])
    show "\<exists>m. rsa_pkcs1v15_verify E key sg data h t = (Inl (ValueError m), key, t)"
      by (rule entry_bad_hash(4) [OF h k])
    show "\<exists>m. dsa_verify E key sg data h t = (Inl (ValueError m), key, t)"
      by (rule entry_bad_hash(5) [OF h k])
    show "\<exists>m. ecdsa_verify E key sg data h t = (Inl (ValueError m), key, t)"
      by (rule entry_bad_hash(6) [OF h k])
  }
  have z: "pss_hash_length h = 0"
    using h by (auto simp: hash_names_def pss_hash_length_def)
  assume "algorithm (asn1 k) = ''rsa'' \<and>
      add_pss_padding E h 0 (bit_size (asn1 k)) d = Inl e"
  then show "rsa_pss_sign E (PrivateKeyObj k) (Bytes d) h t = (Inl e, PrivateKeyObj k, t)"
    by (simp add: rsa_pss_sign_def check_algo_def key_of_def z)
qed

theorem bad_hash_rejected_witness:
  "''foo'' \<notin> hash_names \<and>
   handle_of (PublicKeyObj rsa_handle) = Some rsa_handle \<and>
   (\<exists>m. rsa_pkcs1v15_verify env0 (PublicKeyObj rsa_handle) (Bytes [1]) (Bytes [2]) ''foo'' []
          = (Inl (ValueError m), PublicKeyObj rsa_handle, [])) \<and>
   rsa_pss_sign env0 (PrivateKeyObj rsa_handle) (Bytes [2]) ''foo'' []
     = (Inl (ValueError ''hash_algorithm''), PrivateKeyObj rsa_handle, [])"
  using bad_hash_rejected [where h = "''foo''" and key = "PublicKeyObj rsa_handle"
          and k = rsa_handle and E = env0 and sg = "Bytes [1]" and data = "Bytes [2]"
          and t = "[]" and d = "[2]" and e = "ValueError ''hash_algorithm''"]
  by (simp add: hash_names_def env0_def rsa_handle_def rsa_struct_def)

text \<open>
  C1 as stated fails. \<^verbatim>\<open>rsa_pss_verify\<close> with the name \<^verbatim>\<open>foo\<close> runs the whole native
  raw encryption, eight native calls, before \<^verbatim>\<open>verify_pss_padding\<close> sees the name and
  refuses it. And \<^verbatim>\<open>rsa_pkcs1v15_verify\<close> on a certificate whose public key is not yet
  derived reads \<^verbatim>\<open>algo\<close> first, which calls \<^verbatim>\<open>SecCertificateCopyPublicKey\<close>, before
  \<^verbatim>\<open>_verify\<close> refuses the name.
\<close>

theorem bad_hash_native_calls_counterexample:
  "''foo'' \<notin> hash_names \<and>
   fst (rsa_pss_verify env0 (PublicKeyObj rsa_handle) (Bytes [1]) (Bytes [2]) ''foo'' [])
     = Inl (ValueError ''hash_algorithm'') \<and>
   calls (snd (snd (rsa_pss_verify env0 (PublicKeyObj rsa_handle) (Bytes [1]) (Bytes [2])
     ''foo'' [])))
     = [Cf_data_from_bytes [1], SecEncryptTransformCreate (Some 7),
        SecTransformSetAttribute (Some 2) kSecPaddingKey (PaddingValue kSecPaddingNoneKey),
        SecTransformSetAttribute (Some 2) kSecTransformInputAttributeName (RefValue (Some 1)),
        SecTransformExecute (Some 2), Cf_data_to_bytes (Some 5),
        CFRelease (Some 1), CFRelease (Some 2)] \<and>
   calls (snd (snd (rsa_pkcs1v15_verify env0 (CertificateObj (rsa_cert\<lparr>p_public_key := None\<rparr>))
     (Bytes [1]) (Bytes [2]) ''foo'' [])))
     = [SecCertificateCopyPublicKey (Some 9)]"
  by (simp add: rsa_pss_verify_def rsa_pkcs1v15_verify_def check_algo_def p_verify_def
        p_encrypt_def encrypt_try_def key_of_def Certificate_public_key_def native_call_def
        release_if_def env0_def ok_reply_def rsa_handle_def rsa_struct_def rsa_cert_def
        rsa_x509_def handle_cf_error_def handle_sec_error_def hash_names_def
        pss_hash_length_def calls_def Let_def)


subsection \<open>Entry points: PSS signing\<close>

lemma check_algo_settings:
  "digest_settings (snd (snd (check_algo E key a m t))) = digest_settings t"
  "numbers (snd (snd (check_algo E key a m t))) = numbers t"
  by (simp_all add: check_algo_def split_def settings split: sum.splits)

lemma decrypt_try_settings:
  "digest_settings (snd (snd (snd (decrypt_try E key c pad t)))) = digest_settings t"
  "numbers (snd (snd (snd (decrypt_try E key c pad t)))) = numbers t"
  by (simp_all add: decrypt_try_def Let_def split_def settings
        split: option.splits sum.splits)

lemma p_decrypt_settings:
  "digest_settings (snd (snd (p_decrypt E key c pad t))) = digest_settings t"
  "numbers (snd (snd (p_decrypt E key c pad t))) = numbers t"
  by (simp_all add: p_decrypt_def Let_def split_def settings decrypt_try_settings
        split: pyval.splits option.splits)

lemma rsa_pss_sign_settings:
  "digest_settings (snd (snd (rsa_pss_sign E key data h t))) = digest_settings t"
  "numbers (snd (snd (rsa_pss_sign E key data h t))) = numbers t"
  by (simp_all add: rsa_pss_sign_def Let_def split_def settings check_algo_settings
        p_decrypt_settings split: pyval.splits option.splits sum.splits)

lemma p_decrypt_calls:
  assumes "p_decrypt E (PrivateKeyObj k) (Bytes enc) (Some kSecPaddingNoneKey) t
             = (Inr s, key', t')"
  shows "(let n = length t;
              cf = ret (native E n (Cf_data_from_bytes enc));
              tr = ret (native E (Suc n) (SecDecryptTransformCreate (sec_key_ref k)));
              res = ret (native E (Suc (Suc (Suc (Suc n)))) (SecTransformExecute tr))
          in calls (drop n t')
               = [Cf_data_from_bytes enc, SecDecryptTransformCreate (sec_key_ref k),
                  SecTransformSetAttribute tr kSecPaddingKey
                    (PaddingValue kSecPaddingNoneKey),
                  SecTransformSetAttribute tr kSecTransformInputAttributeName (RefValue cf),
                  SecTransformExecute tr, Cf_data_to_bytes res]
                 @ map CFRelease (filter truthy [cf, tr]) \<and>
             s = out_bytes (native E (Suc (Suc (Suc (Suc (Suc n))))) (Cf_data_to_bytes res)) \<and>
             key' = PrivateKeyObj k)"
  using assms
  by (auto simp add: p_decrypt_def decrypt_try_def key_of_def native_call_def
        handle_cf_error_def release_if_def Let_def calls_def split: if_splits)

lemma rsa_pss_sign_calls:
  assumes "algorithm (asn1 k) = ''rsa''"
    and "rsa_pss_sign E (PrivateKeyObj k) (Bytes d) h t = (Inr s, key', t')"
  shows "\<exists>enc.
           add_pss_padding E h (pss_hash_length h) (bit_size (asn1 k)) d = Inr enc \<and>
           (let n = length t;
              cf = ret (native E n (Cf_data_from_bytes enc));
              tr = ret (native E (Suc n) (SecDecryptTransformCreate (sec_key_ref k)));
              res = ret (native E (Suc (Suc (Suc (Suc n)))) (SecTransformExecute tr))
          in calls (drop n t')
               = [Cf_data_from_bytes enc, SecDecryptTransformCreate (sec_key_ref k),
                  SecTransformSetAttribute tr kSecPaddingKey
                    (PaddingValue kSecPaddingNoneKey),
                  SecTransformSetAttribute tr kSecTransformInputAttributeName (RefValue cf),
                  SecTransformExecute tr, Cf_data_to_bytes res]
                 @ map CFRelease (filter truthy [cf, tr]) \<and>
             s = out_bytes (native E (Suc (Suc (Suc (Suc (Suc n))))) (Cf_data_to_bytes res)) \<and>
             key' = PrivateKeyObj k)"
proof (cases "add_pss_padding E h (pss_hash_length h) (bit_size (asn1 k)) d")
  case (Inl e)
  with assms show ?thesis by (simp add: rsa_pss_sign_unfold)
next
  case (Inr enc)
  with assms have "p_decrypt E (PrivateKeyObj k) (Bytes enc) (Some kSecPaddingNoneKey) t
             = (Inr s, key', t')"
    by (simp add: rsa_pss_sign_unfold)
  from p_decrypt_calls [OF this] Inr show ?thesis by blast
qed


text \<open>
  C2. For an RSA private key and a byte string, \<^verbatim>\<open>rsa_pss_sign\<close> is \<^verbatim>\<open>add_pss_padding\<close> on
  the hash name, the hash length of the table, the bit size of the key and the message,
  followed, when it returns a block, by \<^verbatim>\<open>_decrypt\<close> of that block with the padding
  \<^verbatim>\<open>kSecPaddingNoneKey\<close>. When it returns a signature, its native calls are exactly:
  wrap the block, create a decrypt transform on the key's reference, set the padding
  attribute to none, set the input to the wrapped block, execute, convert the result
  (the signature returned), release. And on every run, \<^verbatim>\<open>rsa_pss_sign\<close> sets no digest
  attribute and wraps no digest length.
\<close>

theorem rsa_pss_sign_external_padding:
  "(algorithm (asn1 k) = ''rsa'' \<longrightarrow>
      rsa_pss_sign E (PrivateKeyObj k) (Bytes d) h t =
        (case add_pss_padding E h (pss_hash_length h) (bit_size (asn1 k)) d of
           Inl e \<Rightarrow> (Inl e, PrivateKeyObj k, t)
         | Inr encoded_data \<Rightarrow>
             p_decrypt E (PrivateKeyObj k) (Bytes encoded_data) (Some kSecPaddingNoneKey) t))
   \<and> (algorithm (asn1 k) = ''rsa'' \<and>
       rsa_pss_sign E (PrivateKeyObj k) (Bytes d) h t = (Inr s, key', t') \<longrightarrow>
         (\<exists>enc.
           add_pss_padding E h (pss_hash_length h) (bit_size (asn1 k)) d = Inr enc \<and>
           (let n = length t;
              cf = ret (native E n (Cf_data_from_bytes enc));
              tr = ret (native E (Suc n) (SecDecryptTransformCreate (sec_key_ref k)));
              res = ret (native E (Suc (Suc (Suc (Suc n)))) (SecTransformExecute tr))
          in calls (drop n t')
               = [Cf_data_from_bytes enc, SecDecryptTransformCreate (sec_key_ref k),
                  SecTransformSetAttribute tr kSecPaddingKey
                    (PaddingValue kSecPaddingNoneKey),
                  SecTransformSetAttribute tr kSecTransformInputAttributeName (RefValue cf),
                  SecTransformExecute tr, Cf_data_to_bytes res]
                 @ map CFRelease (filter truthy [cf, tr]) \<and>
             s = out_bytes (native E (Suc (Suc (Suc (Suc (Suc n))))) (Cf_data_to_bytes res)) \<and>
             key' = PrivateKeyObj k)))
   \<and> digest_settings (snd (snd (rsa_pss_sign E key data h t))) = digest_settings t
   \<and> numbers (snd (snd (rsa_pss_sign E key data h t))) = numbers t"
proof (intro conjI impI)
  assume "algorithm (asn1 k) = ''rsa''"
  then show "rsa_pss_sign E (PrivateKeyObj k) (Bytes d) h t =
        (case add_pss_padding E h (pss_hash_length h) (bit_size (asn1 k)) d of
           Inl e \<Rightarrow> (Inl e, PrivateKeyObj k, t)
         | Inr encoded_data \<Rightarrow>
             p_decrypt E (PrivateKeyObj k) (Bytes encoded_data) (Some kSecPaddingNoneKey) t)"
    by (rule rsa_pss_sign_unfold)
next
  assume a: "algorithm (asn1 k) = ''rsa'' \<and>
       rsa_pss_sign E (PrivateKeyObj k) (Bytes d) h t = (Inr s, key', t')"
  from rsa_pss_sign_calls [OF conjunct1 [OF a] conjunct2 [OF a]]
  show "\<exists>enc.
           add_pss_padding E h (pss_hash_length h) (bit_size (asn1 k)) d = Inr enc \<and>
           (let n = length t;
              cf = ret (native E n (Cf_data_from_bytes enc));
              tr = ret (native E (Suc n) (SecDecryptTransformCreate (sec_key_ref k)));
              res = ret (native E (Suc (Suc (Suc (Suc n)))) (SecTransformExecute tr))
          in calls (drop n t')
               = [Cf_data_from_bytes enc, SecDecryptTransformCreate (sec_key_ref k),
                  SecTransformSetAttribute tr kSecPaddingKey
                    (PaddingValue kSecPaddingNoneKey),
                  SecTransformSetAttribute tr kSecTransformInputAttributeName (RefValue cf),
                  SecTransformExecute tr, Cf_data_to_bytes res]
                 @ map CFRelease (filter truthy [cf, tr]) \<and>
             s = out_bytes (native E (Suc (Suc (Suc (Suc (Suc n))))) (Cf_data_to_bytes res)) \<and>
             key' = PrivateKeyObj k)" .
next
  show "digest_settings (snd (snd (rsa_pss_sign E key data h t))) = digest_settings t"
    by (rule rsa_pss_sign_settings(1))
  show "numbers (snd (snd (rsa_pss_sign E key data h t))) = numbers t"
    by (rule rsa_pss_sign_settings(2))
qed

theorem rsa_pss_sign_external_padding_witness:
  "algorithm (asn1 rsa_handle) = ''rsa'' \<and>
   fst (rsa_pss_sign env0 (PrivateKeyObj rsa_handle) (Bytes [1]) ''sha256'' []) = Inr [] \<and>
   calls (snd (snd (rsa_pss_sign env0 (PrivateKeyObj rsa_handle) (Bytes [1]) ''sha256'' [])))
     = [Cf_data_from_bytes [1], SecDecryptTransformCreate (Some 7),
        SecTransformSetAttribute (Some 2) kSecPaddingKey (PaddingValue kSecPaddingNoneKey),
        SecTransformSetAttribute (Some 2) kSecTransformInputAttributeName (RefValue (Some 1)),
        SecTransformExecute (Some 2), Cf_data_to_bytes (Some 5),
        CFRelease (Some 1), CFRelease (Some 2)]"
proof -
  let ?r = "rsa_pss_sign env0 (PrivateKeyObj rsa_handle) (Bytes [1]) ''sha256'' []"
  have a: "algorithm (asn1 rsa_handle) = ''rsa''"
    by (simp add: rsa_handle_def rsa_struct_def)
  have r: "?r = (Inr [], PrivateKeyObj rsa_handle, snd (snd ?r))"
    by (simp add: rsa_pss_sign_def check_algo_def p_decrypt_def decrypt_try_def key_of_def
          native_call_def env0_def ok_reply_def rsa_handle_def rsa_struct_def
          handle_cf_error_def pss_hash_length_def Let_def)
  have n0: "native env0 = (\<lambda>n c. ok_reply n)"
    by (simp add: env0_def)
  have p0: "add_pss_padding env0 ''sha256'' (pss_hash_length ''sha256'') b [1] = Inr [1]" for b
    by (simp add: env0_def pss_hash_length_def)
  have k0: "sec_key_ref rsa_handle = Some 7"
    by (simp add: rsa_handle_def)
  note inst = rsa_pss_sign_external_padding [where k = rsa_handle and E = env0 and d = "[1]"
         and h = "''sha256''" and t = "[]" and s = "[]" and key' = "PrivateKeyObj rsa_handle"
         and t' = "snd (snd ?r)"]
  from mp [OF conjunct1 [OF conjunct2 [OF inst]] conjI [OF a r]]
  have "calls (snd (snd ?r))
     = [Cf_data_from_bytes [1], SecDecryptTransformCreate (Some 7),
        SecTransformSetAttribute (Some 2) kSecPaddingKey (PaddingValue kSecPaddingNoneKey),
        SecTransformSetAttribute (Some 2) kSecTransformInputAttributeName (RefValue (Some 1)),
        SecTransformExecute (Some 2), Cf_data_to_bytes (Some 5),
        CFRelease (Some 1), CFRelease (Some 2)]"
    by (auto simp add: Let_def n0 p0 k0 ok_reply_def)
  moreover have "fst ?r = Inr []"
    using r by (metis fst_conv)
  ultimately show ?thesis using a by simp
qed

end
